theory Spec2Isabelle
  imports Complex_Main
begin

section \<open>Python values: errors and truthiness\<close>

text \<open>
  Every \<^verbatim>\<open>raise\<close>, failed \<^verbatim>\<open>assert\<close> and failing library call of
  \<^verbatim>\<open>libs/model.py\<close> is a value of \<open>error\<close>; a computation that may raise returns
  \<open>error + 'a\<close> with \<open>Inl\<close> for the exception.
\<close>

datatype error =
    NotImplementedError string
  | AssertionError
  | TypeError
  | ValueError
  | IndexError
  | AttributeError
  | RuntimeError
  | ZeroDivisionError

definition bind_err :: "error + 'a \<Rightarrow> ('a \<Rightarrow> error + 'b) \<Rightarrow> error + 'b" where
  "bind_err m f = (case m of Inl e \<Rightarrow> Inl e | Inr v \<Rightarrow> f v)"

text \<open>
  The configuration is a \<^verbatim>\<open>defaultdict(lambda: None)\<close>: a flag that was never set reads
  as \<^verbatim>\<open>None\<close>, which an \<^verbatim>\<open>if\<close> takes as false.
\<close>

fun truthy :: "bool option \<Rightarrow> bool" where
  "truthy None = False"
| "truthy (Some b) = b"

section \<open>Tensors\<close>

text \<open>
  A tensor is its shape and its entries by index. Memory layout (strides,
  \<^verbatim>\<open>contiguous()\<close>) is not modelled.
\<close>

record 'a tensor =
  shape :: "nat list"
  elem :: "nat list \<Rightarrow> 'a"

type_synonym 'a module = "'a tensor \<Rightarrow> error + 'a tensor"

text \<open>\<^verbatim>\<open>x.size(k)\<close> for a non-negative \<open>k\<close>.\<close>

definition size_at :: "'a tensor \<Rightarrow> nat \<Rightarrow> error + nat" where
  "size_at x k = (if k < length (shape x) then Inr (shape x ! k) else Inl IndexError)"

text \<open>
  Broadcasting of two shapes, read from the last dimension: sizes agree, or one of them
  is 1; a missing leading dimension counts as 1.
\<close>

fun broadcast_rev :: "nat list \<Rightarrow> nat list \<Rightarrow> nat list option" where
  "broadcast_rev [] ys = Some ys"
| "broadcast_rev xs [] = Some xs"
| "broadcast_rev (x # xs) (y # ys) =
     (if x = y \<or> y = 1 then map_option ((#) x) (broadcast_rev xs ys)
      else if x = 1 then map_option ((#) y) (broadcast_rev xs ys)
      else None)"

definition broadcast_shapes :: "nat list \<Rightarrow> nat list \<Rightarrow> nat list option" where
  "broadcast_shapes s t = map_option rev (broadcast_rev (rev s) (rev t))"

definition broadcast_index :: "nat list \<Rightarrow> nat list \<Rightarrow> nat list" where
  "broadcast_index s idx =
     map2 (\<lambda>d i. if d = 1 then 0 else i) s (drop (length idx - length s) idx)"

definition pointwise2 :: "('a \<Rightarrow> 'a \<Rightarrow> 'a) \<Rightarrow> 'a tensor \<Rightarrow> 'a tensor \<Rightarrow> error + 'a tensor" where
  "pointwise2 f x y =
     (case broadcast_shapes (shape x) (shape y) of
        None \<Rightarrow> Inl RuntimeError
      | Some s \<Rightarrow>
          Inr \<lparr>shape = s,
               elem = (\<lambda>idx. f (elem x (broadcast_index (shape x) idx))
                                (elem y (broadcast_index (shape y) idx)))\<rparr>)"

text \<open>\<^verbatim>\<open>x + y\<close> and \<^verbatim>\<open>x - y\<close> on tensors.\<close>

definition tensor_add :: "'a::plus tensor \<Rightarrow> 'a tensor \<Rightarrow> error + 'a tensor" where
  "tensor_add = pointwise2 (+)"

definition tensor_sub :: "'a::minus tensor \<Rightarrow> 'a tensor \<Rightarrow> error + 'a tensor" where
  "tensor_sub = pointwise2 (-)"

text \<open>
  \<^verbatim>\<open>x.permute(dims)\<close>: \<open>dims\<close> must list every dimension once; entry \<open>idx\<close> of the
  result is the entry of \<open>x\<close> whose coordinate \<open>dims ! j\<close> is \<open>idx ! j\<close>.
\<close>

fun index_of :: "nat list \<Rightarrow> nat \<Rightarrow> nat" where
  "index_of [] k = 0"
| "index_of (d # ds) k = (if d = k then 0 else Suc (index_of ds k))"

definition permute :: "nat list \<Rightarrow> 'a tensor \<Rightarrow> error + 'a tensor" where
  "permute dims x =
     (if length dims = length (shape x) \<and> distinct dims \<and> list_all (\<lambda>d. d < length (shape x)) dims
      then Inr \<lparr>shape = map (\<lambda>d. shape x ! d) dims,
                elem = (\<lambda>idx. elem x (map (\<lambda>k. idx ! index_of dims k) [0..<length dims]))\<rparr>
      else Inl RuntimeError)"

section \<open>torch.nn.Dropout\<close>

text \<open>
  \<^verbatim>\<open>nn.Dropout(p)\<close> refuses a rate that is not a number in \<open>[0, 1]\<close>. A new module is in
  training mode. Its forward returns the input itself when the rate is 0 or the module is
  in evaluation mode; otherwise every entry is zeroed or rescaled by the random mask drawn
  for this call, which the model takes as the argument \<open>noise\<close>: \<open>noise idx v\<close> is what
  becomes of the value \<open>v\<close> at index \<open>idx\<close>.
\<close>

record Dropout =
  drop_p :: rat
  drop_training :: bool

type_synonym 'a mask = "nat list \<Rightarrow> 'a \<Rightarrow> 'a"

definition Dropout_init :: "rat option \<Rightarrow> error + Dropout" where
  "Dropout_init rate =
     (case rate of
        None \<Rightarrow> Inl TypeError
      | Some q \<Rightarrow> if q < 0 \<or> 1 < q then Inl ValueError
                  else Inr \<lparr>drop_p = q, drop_training = True\<rparr>)"

definition Dropout_forward :: "Dropout \<Rightarrow> 'a mask \<Rightarrow> 'a tensor \<Rightarrow> 'a tensor" where
  "Dropout_forward d noise x =
     (if drop_p d = 0 \<or> \<not> drop_training d then x
      else x\<lparr>elem := (\<lambda>idx. noise idx (elem x idx))\<rparr>)"

section \<open>FourierTransformerEncoderLayer\<close>

text \<open>
  The attention module \<^verbatim>\<open>SimpleAttention\<close> and the sub-layers \<^verbatim>\<open>FeedForward\<close> and
  \<^verbatim>\<open>PositionalEncoding\<close> live in \<^verbatim>\<open>libs/layers.py\<close>; \<^verbatim>\<open>nn.LayerNorm\<close> is torch's.
  A module is its forward function. The attention's forward takes query, key, value, the
  optional positions and the optional weight, and returns the output and the attention
  weights.
\<close>

type_synonym 'a attention =
  "'a tensor \<Rightarrow> 'a tensor \<Rightarrow> 'a tensor \<Rightarrow> 'a tensor option \<Rightarrow> 'a tensor option
     \<Rightarrow> error + ('a tensor \<times> 'a tensor)"

text \<open>The keyword arguments of \<^verbatim>\<open>FourierTransformerEncoderLayer.__init__\<close>.\<close>

record encoder_kwargs =
  ek_d_model :: nat
  ek_pos_dim :: nat
  ek_n_head :: nat
  ek_dim_feedforward :: nat
  ek_attention_type :: string
  ek_pos_emb :: bool
  ek_layer_norm :: "bool option"
  ek_attn_norm :: "bool option"
  ek_norm_type :: "string option"
  ek_batch_norm :: "bool option"
  ek_attn_weight :: "bool option"
  ek_xavier_init :: "rat option"
  ek_diagonal_weight :: "rat option"
  ek_symmetric_init :: "bool option"
  ek_residual_type :: "string option"
  ek_activation_type :: "string option"
  ek_dropout :: "rat option"
  ek_debug :: "bool option"

text \<open>The keyword arguments the layer passes to \<^verbatim>\<open>SimpleAttention\<close> (lines 62-71).\<close>

record attention_kwargs =
  ak_n_head :: nat
  ak_d_model :: nat
  ak_attention_type :: string
  ak_diagonal_weight :: "rat option"
  ak_xavier_init :: "rat option"
  ak_symmetric_init :: "bool option"
  ak_pos_dim :: nat
  ak_norm :: bool
  ak_norm_type :: string
  ak_dropout :: rat

text \<open>Lines 56-59: the dropout rate the layer uses.\<close>

definition layer_dropout :: "string \<Rightarrow> rat option \<Rightarrow> rat" where
  "layer_dropout attention_type dropout =
     (let dropout = (case dropout of None \<Rightarrow> 1 / 10 | Some q \<Rightarrow> q) in
      if attention_type \<in> set [''linear'', ''softmax''] then 1 / 10 else dropout)"

definition SimpleAttention_kwargs :: "encoder_kwargs \<Rightarrow> attention_kwargs" where
  "SimpleAttention_kwargs kw =
     \<lparr>ak_n_head = ek_n_head kw,
      ak_d_model = ek_d_model kw,
      ak_attention_type = ek_attention_type kw,
      ak_diagonal_weight = ek_diagonal_weight kw,
      ak_xavier_init = ek_xavier_init kw,
      ak_symmetric_init = ek_symmetric_init kw,
      ak_pos_dim = ek_pos_dim kw,
      ak_norm = (case ek_attn_norm kw of None \<Rightarrow> \<not> truthy (ek_layer_norm kw) | Some b \<Rightarrow> b),
      ak_norm_type = (case ek_norm_type kw of None \<Rightarrow> ''layer'' | Some s \<Rightarrow> s),
      ak_dropout = layer_dropout (ek_attention_type kw) (ek_dropout kw)\<rparr>"

text \<open>
  The sub-layers whose weights the constructor draws: the two layer norms, the
  feed-forward block and the positional encoding, each as its forward function.
\<close>

record 'a encoder_sublayers =
  sub_layer_norm1 :: "'a module"
  sub_layer_norm2 :: "'a module"
  sub_ff :: "'a module"
  sub_pos_emb :: "'a module"

record 'a FourierTransformerEncoderLayer =
  fl_attn :: "'a attention"
  fl_d_model :: nat
  fl_n_head :: nat
  fl_pos_dim :: nat
  fl_add_layer_norm :: "bool option"
  fl_layer_norm1 :: "'a module option"
  fl_layer_norm2 :: "'a module option"
  fl_ff :: "'a module"
  fl_dropout1 :: Dropout
  fl_dropout2 :: Dropout
  fl_residual_type :: "string option"
  fl_add_pos_emb :: bool
  fl_pos_emb :: "'a module option"
  fl_debug :: "bool option"
  fl_attn_weight :: "bool option"

text \<open>
  \<^verbatim>\<open>FourierTransformerEncoderLayer.__init__\<close>. \<open>mk_attn\<close> is the constructor of
  \<^verbatim>\<open>SimpleAttention\<close>.
\<close>

definition FourierTransformerEncoderLayer_init ::
  "(attention_kwargs \<Rightarrow> error + 'a attention) \<Rightarrow> 'a encoder_sublayers \<Rightarrow> encoder_kwargs
     \<Rightarrow> error + 'a FourierTransformerEncoderLayer" where
  "FourierTransformerEncoderLayer_init mk_attn sub kw =
     (let dropout = layer_dropout (ek_attention_type kw) (ek_dropout kw) in
      bind_err (mk_attn (SimpleAttention_kwargs kw)) (\<lambda>attn.
      bind_err (Dropout_init (Some dropout)) (\<lambda>dropout1.
      bind_err (Dropout_init (Some dropout)) (\<lambda>dropout2.
      Inr \<lparr>fl_attn = attn,
           fl_d_model = ek_d_model kw,
           fl_n_head = ek_n_head kw,
           fl_pos_dim = ek_pos_dim kw,
           fl_add_layer_norm = ek_layer_norm kw,
           fl_layer_norm1 = (if truthy (ek_layer_norm kw) then Some (sub_layer_norm1 sub) else None),
           fl_layer_norm2 = (if truthy (ek_layer_norm kw) then Some (sub_layer_norm2 sub) else None),
           fl_ff = sub_ff sub,
           fl_dropout1 = dropout1,
           fl_dropout2 = dropout2,
           fl_residual_type = ek_residual_type kw,
           fl_add_pos_emb = ek_pos_emb kw,
           fl_pos_emb = (if ek_pos_emb kw then Some (sub_pos_emb sub) else None),
           fl_debug = ek_debug kw,
           fl_attn_weight = ek_attn_weight kw\<rparr>))))"

text \<open>Lines 114-117: the residual around the attention.\<close>

definition attn_residual ::
  "('a::{plus,minus}) FourierTransformerEncoderLayer \<Rightarrow> 'a mask
     \<Rightarrow> 'a tensor \<Rightarrow> 'a tensor \<Rightarrow> error + 'a tensor" where
  "attn_residual layer noise x att_output =
     (if fl_residual_type layer \<in> {Some ''add'', Some ''plus''} \<or> fl_residual_type layer = None
      then tensor_add x (Dropout_forward (fl_dropout1 layer) noise att_output)
      else tensor_sub x (Dropout_forward (fl_dropout1 layer) noise att_output))"

definition optional_module :: "'a module option \<Rightarrow> 'a module" where
  "optional_module m x = (case m of None \<Rightarrow> Inl AttributeError | Some f \<Rightarrow> f x)"

text \<open>
  What a layer returns: the tensor alone, or the tensor with the attention weights.
\<close>

datatype 'a layer_output = Plain "'a tensor" | WithWeight "'a tensor" "'a tensor"

text \<open>
  \<^verbatim>\<open>FourierTransformerEncoderLayer.forward\<close>. \<open>noise1\<close> and \<open>noise2\<close> are the random
  masks of the two dropouts for this call.
\<close>

definition FourierTransformerEncoderLayer_forward ::
  "('a::{plus,minus}) FourierTransformerEncoderLayer \<Rightarrow> 'a mask
     \<Rightarrow> 'a mask \<Rightarrow> 'a tensor \<Rightarrow> 'a tensor option \<Rightarrow> 'a tensor option
     \<Rightarrow> error + 'a layer_output" where
  "FourierTransformerEncoderLayer_forward layer noise1 noise2 x pos weight =
     bind_err
       (if fl_add_pos_emb layer
        then bind_err (permute [1, 0, 2] x) (\<lambda>x.
             bind_err (optional_module (fl_pos_emb layer) x) (\<lambda>x.
             permute [1, 0, 2] x))
        else Inr x) (\<lambda>x.
     bind_err
       (if pos \<noteq> None \<and> fl_pos_dim layer > 0
        then fl_attn layer x x x pos weight
        else fl_attn layer x x x None weight) (\<lambda>(att_output, attn_weight).
     bind_err (attn_residual layer noise1 x att_output) (\<lambda>x.
     bind_err
       (if truthy (fl_add_layer_norm layer)
        then optional_module (fl_layer_norm1 layer) x else Inr x) (\<lambda>x.
     bind_err (fl_ff layer x) (\<lambda>x1.
     bind_err (tensor_add x (Dropout_forward (fl_dropout2 layer) noise2 x1)) (\<lambda>x.
     bind_err
       (if truthy (fl_add_layer_norm layer)
        then optional_module (fl_layer_norm2 layer) x else Inr x) (\<lambda>x.
     if truthy (fl_attn_weight layer) then Inr (WithWeight x attn_weight)
     else Inr (Plain x))))))))"

section \<open>More tensor operations\<close>

definition map_tensor :: "('a \<Rightarrow> 'a) \<Rightarrow> 'a tensor \<Rightarrow> 'a tensor" where
  "map_tensor f x = x\<lparr>elem := (\<lambda>idx. f (elem x idx))\<rparr>"

text \<open>\<^verbatim>\<open>nn.ReLU\<close>, entry by entry.\<close>

definition relu :: "'a::{zero,ord} \<Rightarrow> 'a" where
  "relu v = max 0 v"

text \<open>
  \<^verbatim>\<open>torch.cat([x, y], dim=-1)\<close>: the two tensors agree on every dimension but the last.
\<close>

definition cat_last :: "'a tensor \<Rightarrow> 'a tensor \<Rightarrow> error + 'a tensor" where
  "cat_last x y =
     (if shape x \<noteq> [] \<and> shape y \<noteq> [] \<and> butlast (shape x) = butlast (shape y)
      then Inr \<lparr>shape = butlast (shape x) @ [last (shape x) + last (shape y)],
                elem = (\<lambda>idx. if last idx < last (shape x) then elem x idx
                               else elem y (butlast idx @ [last idx - last (shape x)]))\<rparr>
      else Inl RuntimeError)"

text \<open>
  \<^verbatim>\<open>x[:, 1:-1, 1:-1]\<close>: the slice \<^verbatim>\<open>1:-1\<close> of a dimension of size \<open>n\<close> has
  \<open>n - 2\<close> entries (none when \<open>n < 2\<close>) and starts at index 1.
\<close>

definition crop_border :: "'a tensor \<Rightarrow> error + 'a tensor" where
  "crop_border x =
     (if length (shape x) < 3 then Inl IndexError
      else Inr \<lparr>shape = (shape x)[1 := shape x ! 1 - 2, 2 := shape x ! 2 - 2],
                elem = (\<lambda>idx. elem x (idx[1 := Suc (idx ! 1), 2 := Suc (idx ! 2)]))\<rparr>)"

text \<open>
  \<^verbatim>\<open>F.pad(x, (0, 0, 1, 1, 1, 1), "constant", 0)\<close>: the last dimension is left alone, the
  two before it get one zero entry on each side.
\<close>

definition pad_border :: "'a::zero tensor \<Rightarrow> error + 'a tensor" where
  "pad_border x =
     (let r = length (shape x); i = r - 3; j = r - 2 in
      if r < 3 then Inl RuntimeError
      else Inr \<lparr>shape = (shape x)[i := shape x ! i + 2, j := shape x ! j + 2],
                elem = (\<lambda>idx. if idx ! i = 0 \<or> idx ! i = Suc (shape x ! i)
                                  \<or> idx ! j = 0 \<or> idx ! j = Suc (shape x ! j)
                               then 0
                               else elem x (idx[i := idx ! i - 1, j := idx ! j - 1]))\<rparr>)"

text \<open>
  \<^verbatim>\<open>x[:, :stop, :]\<close>: a negative \<open>stop\<close> counts from the end, and the bounds are clipped
  to the dimension.
\<close>

definition slice_stop :: "int \<Rightarrow> 'a tensor \<Rightarrow> error + 'a tensor" where
  "slice_stop stop x =
     (if length (shape x) < 3 then Inl IndexError
      else let n = int (shape x ! 1);
               k = (if stop < 0 then max 0 (n + stop) else min n stop)
           in Inr (x\<lparr>shape := (shape x)[1 := nat k]\<rparr>))"

text \<open>
  \<^verbatim>\<open>x.view(dims)\<close> in row-major order; one entry of \<open>dims\<close> may be \<open>-1\<close> and is then
  inferred from the number of entries.
\<close>

definition ravel :: "nat list \<Rightarrow> nat list \<Rightarrow> nat" where
  "ravel s idx = foldl (\<lambda>acc (d, i). acc * d + i) 0 (zip s idx)"

fun unravel_rev :: "nat list \<Rightarrow> nat \<Rightarrow> nat list" where
  "unravel_rev [] k = []"
| "unravel_rev (d # ds) k = (k mod d) # unravel_rev ds (k div d)"

definition unravel :: "nat list \<Rightarrow> nat \<Rightarrow> nat list" where
  "unravel s k = rev (unravel_rev (rev s) k)"

definition view_shape :: "int list \<Rightarrow> nat \<Rightarrow> nat list option" where
  "view_shape dims numel =
     (let known = prod_list (map nat (filter (\<lambda>d. d \<noteq> -1) dims));
          holes = length (filter (\<lambda>d. d = -1) dims)
      in if list_ex (\<lambda>d. d < -1) dims \<or> 1 < holes then None
         else if holes = 0 then (if known = numel then Some (map nat dims) else None)
         else if known = 0 \<or> numel mod known \<noteq> 0 then None
         else Some (map (\<lambda>d. if d = -1 then numel div known else nat d) dims))"

definition view :: "int list \<Rightarrow> 'a tensor \<Rightarrow> error + 'a tensor" where
  "view dims x =
     (case view_shape dims (prod_list (shape x)) of
        None \<Rightarrow> Inl RuntimeError
      | Some s \<Rightarrow> Inr \<lparr>shape = s, elem = (\<lambda>idx. elem x (unravel (shape x) (ravel s idx)))\<rparr>)"

text \<open>\<^verbatim>\<open>int(n ** 0.5)\<close>: the integer square root, rounded down.\<close>

fun sqrt_down :: "nat \<Rightarrow> nat \<Rightarrow> nat" where
  "sqrt_down n 0 = 0"
| "sqrt_down n (Suc k) = (if Suc k * Suc k \<le> n then Suc k else sqrt_down n k)"

definition int_sqrt :: "nat \<Rightarrow> nat" where
  "int_sqrt n = sqrt_down n n"

section \<open>torch.nn.Linear\<close>

text \<open>
  A linear layer acts on the last dimension: \<open>lin_map\<close> is the affine map its weight and
  bias define, from a feature vector to a feature vector. A last dimension other than
  \<open>lin_in_features\<close> is torch's shape error.
\<close>

type_synonym 'a linear_map = "(nat \<Rightarrow> 'a) \<Rightarrow> nat \<Rightarrow> 'a"

record 'a Linear =
  lin_in_features :: nat
  lin_out_features :: nat
  lin_map :: "'a linear_map"

definition Linear_forward :: "'a Linear \<Rightarrow> 'a module" where
  "Linear_forward l x =
     (if shape x \<noteq> [] \<and> last (shape x) = lin_in_features l
      then Inr \<lparr>shape = butlast (shape x) @ [lin_out_features l],
                elem = (\<lambda>idx. lin_map l (\<lambda>c. elem x (butlast idx @ [c])) (last idx))\<rparr>
      else Inl RuntimeError)"

section \<open>PointwiseRegressor\<close>

text \<open>
  The weights the constructor draws, and \<^verbatim>\<open>nn.SiLU\<close> on an entry:
  \<open>pp_ff k\<close> is the linear map of the \<open>k\<close>-th block of \<^verbatim>\<open>self.ff\<close>.
\<close>

record 'a regressor_params =
  pp_fc :: "'a linear_map"
  pp_ff :: "nat \<Rightarrow> 'a linear_map"
  pp_out :: "'a linear_map"
  pp_silu :: "'a \<Rightarrow> 'a"

record regressor_kwargs =
  rk_in_dim :: nat
  rk_n_hidden :: nat
  rk_out_dim :: nat
  rk_num_layers :: "int option"
  rk_spacial_fc :: "bool option"
  rk_spacial_dim :: "nat option"
  rk_dropout :: "rat option"
  rk_activation :: "string option"
  rk_debug :: "bool option"

text \<open>A block of \<^verbatim>\<open>self.ff\<close> is \<^verbatim>\<open>nn.Sequential(nn.Linear(...), activ)\<close>.\<close>

record 'a PointwiseRegressor =
  pr_spacial_fc :: "bool option"
  pr_fc :: "'a Linear option"
  pr_ff :: "('a Linear \<times> ('a \<Rightarrow> 'a)) list"
  pr_dropout :: Dropout
  pr_out :: "'a Linear"
  pr_debug :: "bool option"

definition PointwiseRegressor_init ::
  "('a::{zero,ord}) regressor_params \<Rightarrow> regressor_kwargs \<Rightarrow> error + 'a PointwiseRegressor" where
  "PointwiseRegressor_init par kw =
     (let dropout = (case rk_dropout kw of None \<Rightarrow> 1 / 10 | Some q \<Rightarrow> q);
          activ = (if rk_activation kw = Some ''silu'' then pp_silu par else relu);
          n_hidden = rk_n_hidden kw
      in
      bind_err
        (if truthy (rk_spacial_fc kw)
         then (case rk_spacial_dim kw of
                 None \<Rightarrow> Inl TypeError
               | Some sd \<Rightarrow> Inr (Some \<lparr>lin_in_features = rk_in_dim kw + sd,
                                         lin_out_features = n_hidden,
                                         lin_map = pp_fc par\<rparr>))
         else Inr None) (\<lambda>fc.
      bind_err
        (case rk_num_layers kw of
           None \<Rightarrow> Inl TypeError
         | Some num_layers \<Rightarrow>
             Inr (map (\<lambda>k. (\<lparr>lin_in_features = n_hidden, lin_out_features = n_hidden,
                              lin_map = pp_ff par k\<rparr>, activ))
                      [0..<Suc (nat (num_layers - 1))])) (\<lambda>ff.
      bind_err (Dropout_init (Some dropout)) (\<lambda>dp.
      Inr \<lparr>pr_spacial_fc = rk_spacial_fc kw,
           pr_fc = fc,
           pr_ff = ff,
           pr_dropout = dp,
           pr_out = \<lparr>lin_in_features = n_hidden, lin_out_features = rk_out_dim kw,
                     lin_map = pp_out par\<rparr>,
           pr_debug = rk_debug kw\<rparr>))))"

text \<open>
  The loop over \<^verbatim>\<open>self.ff\<close>: the block, then the dropout. \<open>noise k\<close> is the random mask
  of the \<open>k\<close>-th dropout call.
\<close>

fun regressor_ff ::
  "Dropout \<Rightarrow> (nat \<Rightarrow> 'a mask) \<Rightarrow> nat \<Rightarrow> ('a Linear \<times> ('a \<Rightarrow> 'a)) list
     \<Rightarrow> 'a tensor \<Rightarrow> error + 'a tensor" where
  "regressor_ff dp noise k [] x = Inr x"
| "regressor_ff dp noise k ((lin, activ) # layers) x =
     bind_err (Linear_forward lin x) (\<lambda>x.
     regressor_ff dp noise (Suc k) layers (Dropout_forward dp (noise k) (map_tensor activ x)))"

text \<open>\<^verbatim>\<open>PointwiseRegressor.forward(x, grid=None)\<close>.\<close>

definition PointwiseRegressor_forward ::
  "'a PointwiseRegressor \<Rightarrow> (nat \<Rightarrow> 'a mask) \<Rightarrow> 'a tensor \<Rightarrow> 'a tensor option
     \<Rightarrow> error + 'a tensor" where
  "PointwiseRegressor_forward reg noise x grid =
     bind_err
       (if truthy (pr_spacial_fc reg)
        then (case grid of
                None \<Rightarrow> Inl TypeError
              | Some g \<Rightarrow>
                  bind_err (cat_last x g) (\<lambda>x.
                  case pr_fc reg of None \<Rightarrow> Inl AttributeError | Some fc \<Rightarrow> Linear_forward fc x))
        else Inr x) (\<lambda>x.
     bind_err (regressor_ff (pr_dropout reg) noise 0 (pr_ff reg) x) (\<lambda>x.
     Linear_forward (pr_out reg) x))"

section \<open>Graph feature extractors\<close>

text \<open>
  A graph layer is its forward function of the node features and the edge tensor.
\<close>

type_synonym 'a graph_layer = "'a tensor \<Rightarrow> 'a tensor \<Rightarrow> error + 'a tensor"

text \<open>
  The constructors of \<^verbatim>\<open>libs/layers.py\<close> the extractors call. \<open>lib_EdgeEncoder\<close> takes
  \<^verbatim>\<open>out_dim\<close>, \<^verbatim>\<open>edge_feats\<close> and \<^verbatim>\<open>raw_laplacian\<close>; the two layer constructors
  take \<^verbatim>\<open>in_features\<close> and \<^verbatim>\<open>out_features\<close>, after the number of the layer, which
  stands for the weights drawn for it.
\<close>

record 'a graph_lib =
  lib_EdgeEncoder :: "nat \<Rightarrow> nat \<Rightarrow> bool option \<Rightarrow> 'a module"
  lib_GraphConvolution :: "nat \<Rightarrow> nat \<Rightarrow> nat \<Rightarrow> 'a graph_layer"
  lib_GraphAttention :: "nat \<Rightarrow> nat \<Rightarrow> nat \<Rightarrow> 'a graph_layer"

record graph_kwargs =
  gk_node_feats :: nat
  gk_out_features :: nat
  gk_num_gcn_layers :: nat
  gk_edge_feats :: nat
  gk_activation :: "bool option"
  gk_raw_laplacian :: "bool option"
  gk_dropout :: "rat option"
  gk_debug :: "bool option"

record 'a GCN =
  gcn_edge_learner :: "'a module"
  gcn_layer0 :: "'a graph_layer"
  gcn_layers :: "'a graph_layer list"
  gcn_activation :: "bool option"
  gcn_dropout :: Dropout
  gcn_edge_feats :: nat
  gcn_debug :: "bool option"

text \<open>
  \<^verbatim>\<open>GCN.__init__\<close>: besides \<^verbatim>\<open>gcn_layer0\<close>, one layer for every index of
  \<^verbatim>\<open>range(1, num_gcn_layers)\<close>.
\<close>

definition GCN_init :: "'a graph_lib \<Rightarrow> graph_kwargs \<Rightarrow> error + 'a GCN" where
  "GCN_init lib kw =
     bind_err (Dropout_init (gk_dropout kw)) (\<lambda>dp.
     Inr \<lparr>gcn_edge_learner =
            lib_EdgeEncoder lib (gk_out_features kw) (gk_edge_feats kw) (gk_raw_laplacian kw),
          gcn_layer0 = lib_GraphConvolution lib 0 (gk_node_feats kw) (gk_out_features kw),
          gcn_layers =
            map (\<lambda>k. lib_GraphConvolution lib k (gk_out_features kw) (gk_out_features kw))
              [1..<gk_num_gcn_layers kw],
          gcn_activation = gk_activation kw,
          gcn_dropout = dp,
          gcn_edge_feats = gk_edge_feats kw,
          gcn_debug = gk_debug kw\<rparr>)"

text \<open>
  The loop over \<^verbatim>\<open>layers[:-1]\<close> of both extractors: the layer, then the ReLU when
  \<^verbatim>\<open>self.activation\<close> holds.
\<close>

fun graph_loop ::
  "bool option \<Rightarrow> ('a::{zero,ord}) graph_layer list \<Rightarrow> 'a tensor \<Rightarrow> 'a tensor \<Rightarrow> error + 'a tensor" where
  "graph_loop activation [] out edge = Inr out"
| "graph_loop activation (gc # layers) out edge =
     bind_err (gc out edge) (\<lambda>out.
     graph_loop activation layers (if truthy activation then map_tensor relu out else out) edge)"

text \<open>\<^verbatim>\<open>layers[-1](out, edge)\<close>: an empty list has no last layer.\<close>

definition last_layer :: "'a graph_layer list \<Rightarrow> 'a graph_layer" where
  "last_layer layers out edge = (if layers = [] then Inl IndexError else last layers out edge)"

text \<open>\<^verbatim>\<open>GCN.forward(x, edge)\<close>.\<close>

definition GCN_forward :: "('a::{zero,ord}) GCN \<Rightarrow> 'a tensor \<Rightarrow> 'a tensor \<Rightarrow> error + 'a tensor" where
  "GCN_forward gcn x edge =
     bind_err (permute [0, 2, 1] x) (\<lambda>x.
     bind_err (permute [0, 3, 1, 2] edge) (\<lambda>edge.
     bind_err (size_at edge 1) (\<lambda>n.
     if n \<noteq> gcn_edge_feats gcn then Inl AssertionError
     else
     bind_err (gcn_edge_learner gcn edge) (\<lambda>edge.
     bind_err (gcn_layer0 gcn x edge) (\<lambda>out.
     bind_err (graph_loop (gcn_activation gcn) (butlast (gcn_layers gcn)) out edge) (\<lambda>out.
     bind_err (last_layer (gcn_layers gcn) out edge) (\<lambda>out.
     permute [0, 2, 1] out)))))))"

record 'a GAT =
  gat_layer0 :: "'a graph_layer"
  gat_layers :: "'a graph_layer list"
  gat_activation :: "bool option"
  gat_debug :: "bool option"

definition GAT_init :: "'a graph_lib \<Rightarrow> graph_kwargs \<Rightarrow> 'a GAT" where
  "GAT_init lib kw =
     \<lparr>gat_layer0 = lib_GraphAttention lib 0 (gk_node_feats kw) (gk_out_features kw),
      gat_layers =
        map (\<lambda>k. lib_GraphAttention lib k (gk_out_features kw) (gk_out_features kw))
          [1..<gk_num_gcn_layers kw],
      gat_activation = gk_activation kw,
      gat_debug = gk_debug kw\<rparr>"

text \<open>\<^verbatim>\<open>edge[..., 0]\<close>: the first channel of the last dimension.\<close>

definition first_channel :: "'a tensor \<Rightarrow> error + 'a tensor" where
  "first_channel edge =
     (if shape edge = [] \<or> last (shape edge) = 0 then Inl IndexError
      else Inr \<lparr>shape = butlast (shape edge), elem = (\<lambda>idx. elem edge (idx @ [0]))\<rparr>)"

text \<open>\<^verbatim>\<open>GAT.forward(x, edge)\<close>.\<close>

definition GAT_forward :: "('a::{zero,ord}) GAT \<Rightarrow> 'a tensor \<Rightarrow> 'a tensor \<Rightarrow> error + 'a tensor" where
  "GAT_forward gat x edge =
     bind_err (first_channel edge) (\<lambda>edge.
     bind_err (gat_layer0 gat x edge) (\<lambda>out.
     bind_err (graph_loop (gat_activation gat) (butlast (gat_layers gat)) out edge) (\<lambda>out.
     last_layer (gat_layers gat) out edge)))"

section \<open>TransformerEncoderLayer\<close>

text \<open>
  torch's \<^verbatim>\<open>MultiheadAttention\<close> as its forward function of query, key, value, the
  attention mask and the key padding mask. Its constructor computes
  \<^verbatim>\<open>embed_dim // num_heads\<close> and asserts that the heads divide the width.
\<close>

type_synonym 'a multihead =
  "'a tensor \<Rightarrow> 'a tensor \<Rightarrow> 'a tensor \<Rightarrow> 'a tensor option \<Rightarrow> 'a tensor option
     \<Rightarrow> error + ('a tensor \<times> 'a tensor)"

definition MultiheadAttention_init :: "'a multihead \<Rightarrow> nat \<Rightarrow> nat \<Rightarrow> error + 'a multihead" where
  "MultiheadAttention_init fwd embed_dim num_heads =
     (if num_heads = 0 then Inl ZeroDivisionError
      else if (embed_dim div num_heads) * num_heads \<noteq> embed_dim then Inl AssertionError
      else Inr fwd)"

record 'a official_params =
  op_self_attn :: "'a multihead"
  op_linear1 :: "'a linear_map"
  op_linear2 :: "'a linear_map"
  op_norm1 :: "'a module"
  op_norm2 :: "'a module"

record official_kwargs =
  ok_d_model :: nat
  ok_nhead :: nat
  ok_dim_feedforward :: nat
  ok_dropout :: "rat option"
  ok_layer_norm :: "bool option"
  ok_attn_weight :: "bool option"

record 'a TransformerEncoderLayer =
  tl_self_attn :: "'a multihead"
  tl_linear1 :: "'a Linear"
  tl_dropout :: Dropout
  tl_linear2 :: "'a Linear"
  tl_norm1 :: "'a module"
  tl_norm2 :: "'a module"
  tl_dropout1 :: Dropout
  tl_dropout2 :: Dropout
  tl_add_layer_norm :: "bool option"
  tl_attn_weight :: "bool option"

definition TransformerEncoderLayer_init ::
  "'a official_params \<Rightarrow> official_kwargs \<Rightarrow> error + 'a TransformerEncoderLayer" where
  "TransformerEncoderLayer_init par kw =
     bind_err (MultiheadAttention_init (op_self_attn par) (ok_d_model kw) (ok_nhead kw)) (\<lambda>self_attn.
     bind_err (Dropout_init (ok_dropout kw)) (\<lambda>dropout.
     bind_err (Dropout_init (ok_dropout kw)) (\<lambda>dropout1.
     bind_err (Dropout_init (ok_dropout kw)) (\<lambda>dropout2.
     Inr \<lparr>tl_self_attn = self_attn,
          tl_linear1 = \<lparr>lin_in_features = ok_d_model kw,
                         lin_out_features = ok_dim_feedforward kw,
                         lin_map = op_linear1 par\<rparr>,
          tl_dropout = dropout,
          tl_linear2 = \<lparr>lin_in_features = ok_dim_feedforward kw,
                         lin_out_features = ok_d_model kw,
                         lin_map = op_linear2 par\<rparr>,
          tl_norm1 = op_norm1 par,
          tl_norm2 = op_norm2 par,
          tl_dropout1 = dropout1,
          tl_dropout2 = dropout2,
          tl_add_layer_norm = ok_layer_norm kw,
          tl_attn_weight = ok_attn_weight kw\<rparr>))))"

text \<open>
  \<^verbatim>\<open>TransformerEncoderLayer.forward\<close>. \<open>noise 0\<close>, \<open>noise 1\<close> and \<open>noise 2\<close> are the
  masks of \<^verbatim>\<open>dropout1\<close>, \<^verbatim>\<open>dropout\<close> and \<^verbatim>\<open>dropout2\<close>.
\<close>

definition TransformerEncoderLayer_forward ::
  "('a::{plus,zero,ord}) TransformerEncoderLayer \<Rightarrow> (nat \<Rightarrow> 'a mask) \<Rightarrow> 'a tensor
     \<Rightarrow> 'a tensor option \<Rightarrow> 'a tensor option \<Rightarrow> 'a tensor option \<Rightarrow> 'a tensor option
     \<Rightarrow> error + 'a layer_output" where
  "TransformerEncoderLayer_forward layer noise src pos weight src_mask src_key_padding_mask =
     bind_err (case pos of None \<Rightarrow> Inr src | Some p \<Rightarrow> cat_last p src) (\<lambda>src.
     bind_err (permute [1, 0, 2] src) (\<lambda>src.
     bind_err
       (if src_mask = None \<or> src_key_padding_mask = None
        then tl_self_attn layer src src src None None
        else tl_self_attn layer src src src src_mask src_key_padding_mask) (\<lambda>(src2, attn_weight).
     bind_err (tensor_add src (Dropout_forward (tl_dropout1 layer) (noise 0) src2)) (\<lambda>src.
     bind_err (if truthy (tl_add_layer_norm layer) then tl_norm1 layer src else Inr src) (\<lambda>src.
     bind_err (Linear_forward (tl_linear1 layer) src) (\<lambda>h.
     bind_err
       (Linear_forward (tl_linear2 layer)
          (Dropout_forward (tl_dropout layer) (noise 1) (map_tensor relu h))) (\<lambda>src2.
     bind_err (tensor_add src (Dropout_forward (tl_dropout2 layer) (noise 2) src2)) (\<lambda>src.
     bind_err (if truthy (tl_add_layer_norm layer) then tl_norm2 layer src else Inr src) (\<lambda>src.
     bind_err (permute [1, 0, 2] src) (\<lambda>src.
     if truthy (tl_attn_weight layer) then Inr (WithWeight src attn_weight)
     else Inr (Plain src)))))))))))"

section \<open>The encoder stack\<close>

datatype 'a encoder_layer =
    Fourier "'a FourierTransformerEncoderLayer"
  | Official "'a TransformerEncoderLayer"

text \<open>\<^verbatim>\<open>encoder(x, pos, weight)\<close>, for either class of layer.\<close>

definition encoder_forward ::
  "('a::{plus,minus,zero,ord}) encoder_layer \<Rightarrow> (nat \<Rightarrow> 'a mask) \<Rightarrow> 'a tensor
     \<Rightarrow> 'a tensor option \<Rightarrow> 'a tensor option \<Rightarrow> error + 'a layer_output" where
  "encoder_forward enc noise x pos weight =
     (case enc of
        Fourier layer \<Rightarrow> FourierTransformerEncoderLayer_forward layer (noise 0) (noise 1) x pos weight
      | Official layer \<Rightarrow> TransformerEncoderLayer_forward layer noise x pos weight None None)"

text \<open>
  \<^verbatim>\<open>x, attn_weight = encoder(x, pos, weight)\<close> unpacks what the layer returns. A layer
  that returns a tensor alone is iterated over its first dimension, which must then have
  exactly two entries.
\<close>

definition select0 :: "nat \<Rightarrow> 'a tensor \<Rightarrow> 'a tensor" where
  "select0 i x = \<lparr>shape = tl (shape x), elem = (\<lambda>idx. elem x (i # idx))\<rparr>"

definition unpack_pair :: "'a layer_output \<Rightarrow> error + ('a tensor \<times> 'a tensor)" where
  "unpack_pair out =
     (case out of
        WithWeight x w \<Rightarrow> Inr (x, w)
      | Plain x \<Rightarrow>
          if shape x = [] then Inl TypeError
          else if hd (shape x) = 2 then Inr (select0 0 x, select0 1 x)
          else Inl ValueError)"

text \<open>
  \<^verbatim>\<open>x = encoder(x, pos, weight)\<close> keeps what the layer returns. When that is a pair, the
  next use of \<open>x\<close> as a tensor raises; the model raises at once.
\<close>

definition keep_tensor :: "'a layer_output \<Rightarrow> error + 'a tensor" where
  "keep_tensor out = (case out of Plain x \<Rightarrow> Inr x | WithWeight x w \<Rightarrow> Inl TypeError)"

text \<open>
  The loop over \<^verbatim>\<open>self.encoder_layers\<close> of both operators, on the state
  \<open>(x, x_ortho, attn_weights)\<close>. \<open>noise k\<close> holds the dropout masks of the \<open>k\<close>-th layer.
\<close>

fun encoder_loop ::
  "bool option \<Rightarrow> bool option \<Rightarrow> (nat \<Rightarrow> nat \<Rightarrow> 'a mask) \<Rightarrow> nat
     \<Rightarrow> ('a::{plus,minus,zero,ord}) encoder_layer list \<Rightarrow> 'a tensor option \<Rightarrow> 'a tensor option
     \<Rightarrow> 'a tensor \<times> 'a tensor list \<times> 'a tensor list
     \<Rightarrow> error + ('a tensor \<times> 'a tensor list \<times> 'a tensor list)" where
  "encoder_loop return_attn_weight return_ortho noise k [] pos weight st = Inr st"
| "encoder_loop return_attn_weight return_ortho noise k (enc # rest) pos weight
     (x, x_ortho, attn_weights) =
     bind_err (encoder_forward enc (noise k) x pos weight) (\<lambda>out.
     bind_err
       (if truthy return_attn_weight
        then bind_err (unpack_pair out) (\<lambda>(x, attn_weight). Inr (x, attn_weights @ [attn_weight]))
        else bind_err (keep_tensor out) (\<lambda>x. Inr (x, attn_weights))) (\<lambda>(x, attn_weights).
     encoder_loop return_attn_weight return_ortho noise (Suc k) rest pos weight
       (x, if truthy return_ortho then x_ortho @ [x] else x_ortho, attn_weights)))"

section \<open>The operators' forward passes\<close>

text \<open>
  The decoder of an operator: the pointwise regressor, or the spectral regressor, whose
  convolutions live in \<^verbatim>\<open>libs/layers.py\<close>, as its forward function of \<open>x\<close> and
  \<open>grid\<close>.
\<close>

datatype 'a regressor =
    Pointwise "'a PointwiseRegressor"
  | Spectral "'a tensor \<Rightarrow> 'a tensor option \<Rightarrow> error + 'a tensor"

text \<open>
  The random draws of one forward evaluation: the masks of the operator's own dropout by
  call, of each encoder layer, and of the regressor.
\<close>

record 'a draws =
  rng_dropout :: "nat \<Rightarrow> 'a mask"
  rng_encoder :: "nat \<Rightarrow> nat \<Rightarrow> 'a mask"
  rng_regressor :: "nat \<Rightarrow> 'a mask"

definition regressor_forward ::
  "'a regressor \<Rightarrow> 'a draws \<Rightarrow> 'a tensor \<Rightarrow> 'a tensor option \<Rightarrow> error + 'a tensor" where
  "regressor_forward reg rng x grid =
     (case reg of
        Pointwise r \<Rightarrow> PointwiseRegressor_forward r (rng_regressor rng) x grid
      | Spectral f \<Rightarrow> f x grid)"

subsection \<open>FourierTransformer\<close>

record 'a FourierTransformer =
  ft_feat_extract :: "'a graph_layer"
  ft_spacial_residual :: "bool option"
  ft_return_ortho :: "bool option"
  ft_encoder_layers :: "'a encoder_layer list"
  ft_return_attn_weight :: "bool option"
  ft_freq_regressor :: "'a module option"
  ft_pred_len :: int
  ft_n_freq_targets :: int
  ft_dp :: Dropout
  ft_regressor :: "'a regressor"

text \<open>The dictionary \<^verbatim>\<open>FourierTransformer.forward\<close> returns.\<close>

record 'a predictions =
  preds :: "'a tensor"
  preds_freq :: "'a tensor option"
  preds_ortho :: "'a tensor list"
  attn_weights :: "'a tensor list"

text \<open>\<^verbatim>\<open>FourierTransformer.forward(node, edge, pos, grid=None, weight=None)\<close>.\<close>

definition FourierTransformer_forward ::
  "('a::{plus,minus,zero,ord}) FourierTransformer \<Rightarrow> 'a draws \<Rightarrow> 'a tensor \<Rightarrow> 'a tensor
     \<Rightarrow> 'a tensor option \<Rightarrow> 'a tensor option \<Rightarrow> 'a tensor option \<Rightarrow> error + 'a predictions" where
  "FourierTransformer_forward m rng node edge pos grid weight =
     bind_err (ft_feat_extract m node edge) (\<lambda>x.
     let res = x;
         x_ortho = (if truthy (ft_spacial_residual m) \<or> truthy (ft_return_ortho m)
                    then [res] else [])
     in
     bind_err
       (encoder_loop (ft_return_attn_weight m) (ft_return_ortho m) (rng_encoder rng) 0
          (ft_encoder_layers m) pos weight (x, x_ortho, [])) (\<lambda>(x, x_ortho, attn_weights).
     bind_err (if truthy (ft_spacial_residual m) then tensor_add res x else Inr x) (\<lambda>x.
     bind_err
       (if ft_n_freq_targets m > 0
        then (case ft_freq_regressor m of
                None \<Rightarrow> Inl AttributeError
              | Some f \<Rightarrow> bind_err (f x) (\<lambda>y. bind_err (slice_stop (ft_pred_len m) y) (\<lambda>y.
                          Inr (Some y))))
        else Inr None) (\<lambda>x_freq.
     bind_err (regressor_forward (ft_regressor m) rng (Dropout_forward (ft_dp m) (rng_dropout rng 0) x) grid)
       (\<lambda>x.
     Inr \<lparr>preds = x, preds_freq = x_freq, preds_ortho = x_ortho, attn_weights = attn_weights\<rparr>)))))"

subsection \<open>FourierTransformer2D\<close>

record 'a FourierTransformer2D =
  f2_scaler :: bool
  f2_downscaler :: "'a module"
  f2_n_hidden :: nat
  f2_feat_extract :: "'a graph_layer"
  f2_dropout :: Dropout
  f2_encoder_layers :: "'a encoder_layer list"
  f2_return_attn_weight :: "bool option"
  f2_return_ortho :: "bool option"
  f2_upscaler :: "'a module"
  f2_regressor :: "'a regressor"
  f2_normalizer :: "'a module option"
  f2_boundary_condition :: "string option"

text \<open>The dictionary \<^verbatim>\<open>FourierTransformer2D.forward\<close> returns.\<close>

record 'a predictions2D =
  preds2 :: "'a tensor"
  preds_ortho2 :: "'a tensor list"
  attn_weights2 :: "'a tensor list"

text \<open>
  Lines 825-851 of \<^verbatim>\<open>FourierTransformer2D.forward\<close>: from the input to the upscaled
  features after the second dropout, with the orthogonality snapshots and the attention
  weights collected on the way.
\<close>

definition forward2D_features ::
  "('a::{plus,minus,zero,ord}) FourierTransformer2D \<Rightarrow> 'a draws \<Rightarrow> 'a tensor \<Rightarrow> 'a tensor
     \<Rightarrow> 'a tensor \<Rightarrow> 'a tensor option
     \<Rightarrow> error + ('a tensor \<times> 'a tensor list \<times> 'a tensor list)" where
  "forward2D_features m rng node edge pos weight =
     bind_err (size_at node 0) (\<lambda>bsz.
     bind_err (size_at pos 1) (\<lambda>len.
     let n_s = int_sqrt len in
     bind_err
       (if \<not> f2_scaler m
        then bind_err (view [int bsz, int n_s, int n_s, -1] pos) (\<lambda>p. cat_last node p)
        else Inr node) (\<lambda>node.
     bind_err (f2_downscaler m node) (\<lambda>x.
     bind_err (view [int bsz, -1, int (f2_n_hidden m)] x) (\<lambda>x.
     bind_err (f2_feat_extract m x edge) (\<lambda>x.
     bind_err
       (encoder_loop (f2_return_attn_weight m) (f2_return_ortho m) (rng_encoder rng) 0
          (f2_encoder_layers m) (Some pos) weight
          (Dropout_forward (f2_dropout m) (rng_dropout rng 0) x, [], []))
       (\<lambda>(x, x_ortho, attn_weights).
     bind_err (view [int bsz, int n_s, int n_s, int (f2_n_hidden m)] x) (\<lambda>x.
     bind_err (f2_upscaler m x) (\<lambda>x.
     Inr (Dropout_forward (f2_dropout m) (rng_dropout rng 1) x, x_ortho, attn_weights))))))))))"

text \<open>Lines 852-853: the crop when the resolution differs from the grid's.\<close>

definition crop_to_grid :: "'a tensor \<Rightarrow> 'a tensor \<Rightarrow> error + 'a tensor" where
  "crop_to_grid x grid =
     bind_err (size_at x 1) (\<lambda>n.
     bind_err (size_at grid 1) (\<lambda>n_grid.
     if n \<noteq> n_grid then crop_border x else Inr x))"

text \<open>
  Lines 852-859: the crop, the regressor, the inverse of the normalizer and the zero
  border.
\<close>

definition forward2D_predict ::
  "('a::{plus,minus,zero,ord}) FourierTransformer2D \<Rightarrow> 'a draws \<Rightarrow> 'a tensor \<Rightarrow> 'a tensor
     \<Rightarrow> error + 'a tensor" where
  "forward2D_predict m rng x grid =
     bind_err (crop_to_grid x grid) (\<lambda>x.
     bind_err (regressor_forward (f2_regressor m) rng x (Some grid)) (\<lambda>x.
     bind_err (case f2_normalizer m of None \<Rightarrow> Inr x | Some inverse_transform \<Rightarrow> inverse_transform x)
       (\<lambda>x.
     if f2_boundary_condition m = Some ''dirichlet'' \<or> f2_boundary_condition m = None
     then pad_border x else Inr x)))"

text \<open>\<^verbatim>\<open>FourierTransformer2D.forward(node, edge, pos, grid, weight=None)\<close>.\<close>

definition FourierTransformer2D_forward ::
  "('a::{plus,minus,zero,ord}) FourierTransformer2D \<Rightarrow> 'a draws \<Rightarrow> 'a tensor \<Rightarrow> 'a tensor
     \<Rightarrow> 'a tensor \<Rightarrow> 'a tensor \<Rightarrow> 'a tensor option \<Rightarrow> error + 'a predictions2D" where
  "FourierTransformer2D_forward m rng node edge pos grid weight =
     bind_err (forward2D_features m rng node edge pos weight) (\<lambda>(x, x_ortho, attn_weights).
     bind_err (forward2D_predict m rng x grid) (\<lambda>x.
     Inr \<lparr>preds2 = x, preds_ortho2 = x_ortho, attn_weights2 = attn_weights\<rparr>))"

section \<open>Construction of the operators\<close>

text \<open>
  A value of the configuration whose only use in \<^verbatim>\<open>libs/model.py\<close> is its truth value
  and its passing on: \<^verbatim>\<open>None\<close>, a number, or a tuple.
\<close>

datatype py_value = PyNone | PyNumber rat | PyTuple "py_value list"

fun py_truthy :: "py_value \<Rightarrow> bool" where
  "py_truthy PyNone = False"
| "py_truthy (PyNumber q) = (q \<noteq> 0)"
| "py_truthy (PyTuple vs) = (vs \<noteq> [])"

text \<open>
  The configuration: the keyword arguments of a call that passes every key the constructor
  reads, \<^verbatim>\<open>None\<close> being a value like another. (A key that is neither passed nor in
  \<^verbatim>\<open>ADDITIONAL_ATTR\<close> is no attribute of the operator, and reading it raises.) The keys
  the code computes with as numbers are numbers. The keys that are read only to construct
  \<^verbatim>\<open>BulkRegressor\<close>, \<^verbatim>\<open>SpectralRegressor\<close>, \<^verbatim>\<open>DownScaler\<close> and \<^verbatim>\<open>UpScaler\<close> belong to the
  components below.
\<close>

record 'a config =
  cf_node_feats :: nat
  cf_edge_feats :: nat
  cf_pos_dim :: nat
  cf_n_targets :: nat
  cf_n_hidden :: nat
  cf_num_feat_layers :: nat
  cf_num_ft_layers :: nat
  cf_n_head :: nat
  cf_pred_len :: int
  cf_n_freq_targets :: int
  cf_dim_feedforward :: "nat option"
  cf_feat_extract_type :: "string option"
  cf_graph_activation :: "bool option"
  cf_raw_laplacian :: "bool option"
  cf_attention_type :: "string option"
  cf_xavier_init :: "rat option"
  cf_diagonal_weight :: "rat option"
  cf_symmetric_init :: "bool option"
  cf_layer_norm :: "bool option"
  cf_attn_norm :: "bool option"
  cf_norm_type :: "string option"
  cf_batch_norm :: "bool option"
  cf_spacial_residual :: "bool option"
  cf_return_attn_weight :: "bool option"
  cf_return_ortho :: "bool option"
  cf_residual_type :: "string option"
  cf_bulk_regression :: "bool option"
  cf_decoder_type :: "string option"
  cf_num_regressor_layers :: "int option"
  cf_spacial_dim :: "nat option"
  cf_spacial_fc :: "bool option"
  cf_dropout :: "rat option"
  cf_encoder_dropout :: "rat option"
  cf_decoder_dropout :: "rat option"
  cf_regressor_activation :: "string option"
  cf_attn_activation :: "string option"
  cf_debug :: "bool option"
  cf_boundary_condition :: "string option"
  cf_normalizer :: "'a module option"
  cf_upscaler_size :: py_value
  cf_downscaler_size :: py_value

text \<open>
  What the constructors build from classes and weights outside the modelled code:
  \<^verbatim>\<open>SimpleAttention\<close>, the sub-layers of an encoder layer, torch's multi-head attention,
  the graph layers, \<^verbatim>\<open>Identity\<close> (with its \<^verbatim>\<open>in_features\<close> and \<^verbatim>\<open>out_features\<close>, as a
  function of \<open>x\<close> and an optional second argument), \<^verbatim>\<open>BulkRegressor\<close>, the weights of the
  frequency regressor and of the pointwise regressor, and the results of constructing
  \<^verbatim>\<open>SpectralRegressor\<close>, \<^verbatim>\<open>DownScaler\<close> and \<^verbatim>\<open>UpScaler\<close>, which may raise.
\<close>

record 'a components =
  cp_SimpleAttention :: "attention_kwargs \<Rightarrow> error + 'a attention"
  cp_sublayers :: "'a encoder_sublayers"
  cp_official :: "'a official_params"
  cp_graph :: "'a graph_lib"
  cp_Identity :: "nat option \<Rightarrow> nat option \<Rightarrow> 'a tensor \<Rightarrow> 'a tensor option \<Rightarrow> error + 'a tensor"
  cp_BulkRegressor :: "'a module"
  cp_freq_linear1 :: "'a linear_map"
  cp_freq_linear2 :: "'a linear_map"
  cp_regressor :: "'a regressor_params"
  cp_SpectralRegressor :: "error + ('a tensor \<Rightarrow> 'a tensor option \<Rightarrow> error + 'a tensor)"
  cp_DownScaler :: "error + 'a module"
  cp_UpScaler :: "error + 'a module"

text \<open>What \<^verbatim>\<open>_get_setting\<close> derives from the configuration.\<close>

record settings =
  st_dim_feedforward :: nat
  st_spacial_dim :: "nat option"
  st_spacial_fc :: "bool option"
  st_dropout :: Dropout
  st_num_ft_layers :: nat
  st_attention_types :: "string list"
  st_scaler :: bool

text \<open>\<^verbatim>\<open>FourierTransformer._get_setting\<close>.\<close>

definition FourierTransformer_get_setting :: "'a config \<Rightarrow> error + settings" where
  "FourierTransformer_get_setting cfg =
     bind_err (Dropout_init (Some (case cf_dropout cfg of None \<Rightarrow> 1 / 10 | Some q \<Rightarrow> q))) (\<lambda>dp.
     Inr \<lparr>st_dim_feedforward =
            (case cf_dim_feedforward cfg of None \<Rightarrow> 2 * cf_n_hidden cfg | Some d \<Rightarrow> d),
          st_spacial_dim =
            (case cf_spacial_dim cfg of None \<Rightarrow> Some (cf_pos_dim cfg) | Some d \<Rightarrow> Some d),
          st_spacial_fc = (case cf_spacial_fc cfg of None \<Rightarrow> Some False | Some b \<Rightarrow> Some b),
          st_dropout = dp,
          st_num_ft_layers =
            (if cf_decoder_type cfg = Some ''attention'' then cf_num_ft_layers cfg + 1
             else cf_num_ft_layers cfg),
          st_attention_types =
            [''fourier'', ''integral'', ''cosine'', ''galerkin'', ''linear'', ''softmax''],
          st_scaler = False\<rparr>)"

text \<open>\<^verbatim>\<open>FourierTransformer2D._get_setting\<close>.\<close>

definition FourierTransformer2D_get_setting :: "'a config \<Rightarrow> error + settings" where
  "FourierTransformer2D_get_setting cfg =
     bind_err (Dropout_init (Some (case cf_dropout cfg of None \<Rightarrow> 1 / 10 | Some q \<Rightarrow> q))) (\<lambda>dp.
     Inr \<lparr>st_dim_feedforward =
            (case cf_dim_feedforward cfg of None \<Rightarrow> 2 * cf_n_hidden cfg | Some d \<Rightarrow> d),
          st_spacial_dim = cf_spacial_dim cfg,
          st_spacial_fc = cf_spacial_fc cfg,
          st_dropout = dp,
          st_num_ft_layers =
            (if cf_decoder_type cfg = Some ''attention'' then cf_num_ft_layers cfg + 1
             else cf_num_ft_layers cfg),
          st_attention_types =
            [''fourier'', ''integral'', ''local'', ''global'',
             ''cosine'', ''galerkin'', ''linear'', ''softmax''],
          st_scaler = (py_truthy (cf_upscaler_size cfg) \<and> py_truthy (cf_downscaler_size cfg))\<rparr>)"

text \<open>
  \<^verbatim>\<open>_get_graph\<close> of both operators; they differ in the \<^verbatim>\<open>node_feats\<close> of the graph
  layers and in the arguments of \<^verbatim>\<open>Identity\<close>.
\<close>

definition graph_kwargs_of :: "'a config \<Rightarrow> nat \<Rightarrow> graph_kwargs" where
  "graph_kwargs_of cfg node_feats =
     \<lparr>gk_node_feats = node_feats,
      gk_out_features = cf_n_hidden cfg,
      gk_num_gcn_layers = cf_num_feat_layers cfg,
      gk_edge_feats = cf_edge_feats cfg,
      gk_activation = cf_graph_activation cfg,
      gk_raw_laplacian = cf_raw_laplacian cfg,
      gk_dropout = Some (1 / 10),
      gk_debug = cf_debug cfg\<rparr>"

definition FourierTransformer_get_graph ::
  "('a::{zero,ord}) components \<Rightarrow> 'a config \<Rightarrow> error + 'a graph_layer" where
  "FourierTransformer_get_graph cp cfg =
     (if cf_num_feat_layers cfg > 0 \<and> cf_feat_extract_type cfg = Some ''gcn''
      then bind_err (GCN_init (cp_graph cp) (graph_kwargs_of cfg (cf_node_feats cfg)))
             (\<lambda>gcn. Inr (GCN_forward gcn))
      else if cf_num_feat_layers cfg > 0 \<and> cf_feat_extract_type cfg = Some ''gat''
      then Inr (GAT_forward (GAT_init (cp_graph cp) (graph_kwargs_of cfg (cf_node_feats cfg))))
      else Inr (\<lambda>x edge. cp_Identity cp (Some (cf_node_feats cfg)) (Some (cf_n_hidden cfg)) x
                  (Some edge)))"

definition FourierTransformer2D_get_graph ::
  "('a::{zero,ord}) components \<Rightarrow> 'a config \<Rightarrow> error + 'a graph_layer" where
  "FourierTransformer2D_get_graph cp cfg =
     (if cf_feat_extract_type cfg = Some ''gcn'' \<and> cf_num_feat_layers cfg > 0
      then bind_err (GCN_init (cp_graph cp) (graph_kwargs_of cfg (cf_n_hidden cfg)))
             (\<lambda>gcn. Inr (GCN_forward gcn))
      else if cf_feat_extract_type cfg = Some ''gat'' \<and> cf_num_feat_layers cfg > 0
      then Inr (GAT_forward (GAT_init (cp_graph cp) (graph_kwargs_of cfg (cf_n_hidden cfg))))
      else Inr (\<lambda>x edge. cp_Identity cp None None x (Some edge)))"

text \<open>\<^verbatim>\<open>FourierTransformer2D._get_scaler\<close>: the downscaler and the upscaler.\<close>

definition FourierTransformer2D_get_scaler ::
  "'a components \<Rightarrow> 'a config \<Rightarrow> settings \<Rightarrow> error + ('a module \<times> 'a module)" where
  "FourierTransformer2D_get_scaler cp cfg st =
     (if st_scaler st
      then bind_err (cp_DownScaler cp) (\<lambda>downscaler.
           bind_err (cp_UpScaler cp) (\<lambda>upscaler.
           Inr (downscaler, upscaler)))
      else (case st_spacial_dim st of
              None \<Rightarrow> Inl TypeError
            | Some sd \<Rightarrow>
                Inr (\<lambda>x. cp_Identity cp (Some (cf_node_feats cfg + sd)) (Some (cf_n_hidden cfg)) x None,
                     \<lambda>x. cp_Identity cp None None x None)))"

text \<open>
  The keyword arguments \<^verbatim>\<open>_get_encoder\<close> passes to the two classes of layers.
  \<^verbatim>\<open>FourierTransformer2D\<close> passes neither \<^verbatim>\<open>norm_type\<close>, \<^verbatim>\<open>residual_type\<close> nor
  \<^verbatim>\<open>activation_type\<close>, which then have their defaults.
\<close>

definition encoder_kwargs_of :: "'a config \<Rightarrow> settings \<Rightarrow> string \<Rightarrow> encoder_kwargs" where
  "encoder_kwargs_of cfg st attention_type =
     \<lparr>ek_d_model = cf_n_hidden cfg,
      ek_pos_dim = cf_pos_dim cfg,
      ek_n_head = cf_n_head cfg,
      ek_dim_feedforward = st_dim_feedforward st,
      ek_attention_type = attention_type,
      ek_pos_emb = False,
      ek_layer_norm = cf_layer_norm cfg,
      ek_attn_norm = cf_attn_norm cfg,
      ek_norm_type = cf_norm_type cfg,
      ek_batch_norm = cf_batch_norm cfg,
      ek_attn_weight = cf_return_attn_weight cfg,
      ek_xavier_init = cf_xavier_init cfg,
      ek_diagonal_weight = cf_diagonal_weight cfg,
      ek_symmetric_init = cf_symmetric_init cfg,
      ek_residual_type = cf_residual_type cfg,
      ek_activation_type = cf_attn_activation cfg,
      ek_dropout = cf_encoder_dropout cfg,
      ek_debug = cf_debug cfg\<rparr>"

definition encoder_kwargs2D_of :: "'a config \<Rightarrow> settings \<Rightarrow> string \<Rightarrow> encoder_kwargs" where
  "encoder_kwargs2D_of cfg st attention_type =
     (encoder_kwargs_of cfg st attention_type)
       \<lparr>ek_norm_type := Some ''layer'',
        ek_residual_type := Some ''add'',
        ek_activation_type := Some ''relu''\<rparr>"

definition official_kwargs_of :: "'a config \<Rightarrow> settings \<Rightarrow> official_kwargs" where
  "official_kwargs_of cfg st =
     \<lparr>ok_d_model = cf_n_hidden cfg,
      ok_nhead = cf_n_head cfg,
      ok_dim_feedforward = st_dim_feedforward st,
      ok_dropout = cf_encoder_dropout cfg,
      ok_layer_norm = cf_layer_norm cfg,
      ok_attn_weight = cf_return_attn_weight cfg\<rparr>"

text \<open>
  \<^verbatim>\<open>self.attention_type in self.attention_types\<close>: the attention type when it is one
  of the names. An attention type that was not given is \<^verbatim>\<open>None\<close> and in no list of
  names.
\<close>

definition recognized :: "string option \<Rightarrow> string list \<Rightarrow> string option" where
  "recognized attention_type names =
     (case attention_type of
        None \<Rightarrow> None
      | Some t \<Rightarrow> if t \<in> set names then Some t else None)"

text \<open>
  \<^verbatim>\<open>FourierTransformer._get_encoder\<close>: the layer, then \<^verbatim>\<open>num_ft_layers\<close> deep copies of
  it.
\<close>

definition FourierTransformer_get_encoder ::
  "'a components \<Rightarrow> 'a config \<Rightarrow> settings \<Rightarrow> error + 'a encoder_layer list" where
  "FourierTransformer_get_encoder cp cfg st =
     bind_err
       (case recognized (cf_attention_type cfg) (st_attention_types st) of
          Some attention_type \<Rightarrow>
            bind_err
              (FourierTransformerEncoderLayer_init (cp_SimpleAttention cp) (cp_sublayers cp)
                 (encoder_kwargs_of cfg st attention_type))
              (\<lambda>layer. Inr (Fourier layer))
        | None \<Rightarrow>
            bind_err (TransformerEncoderLayer_init (cp_official cp) (official_kwargs_of cfg st))
              (\<lambda>layer. Inr (Official layer))) (\<lambda>encoder_layer.
     Inr (replicate (st_num_ft_layers st) encoder_layer))"

text \<open>\<^verbatim>\<open>FourierTransformer2D._get_encoder\<close>.\<close>

definition FourierTransformer2D_get_encoder ::
  "'a components \<Rightarrow> 'a config \<Rightarrow> settings \<Rightarrow> error + 'a encoder_layer list" where
  "FourierTransformer2D_get_encoder cp cfg st =
     bind_err
       (case recognized (cf_attention_type cfg) (st_attention_types st) of
          Some attention_type \<Rightarrow>
            bind_err
              (FourierTransformerEncoderLayer_init (cp_SimpleAttention cp) (cp_sublayers cp)
                 (encoder_kwargs2D_of cfg st attention_type))
              (\<lambda>layer. Inr (Fourier layer))
        | None \<Rightarrow>
            if cf_attention_type cfg = Some ''official''
            then bind_err (TransformerEncoderLayer_init (cp_official cp) (official_kwargs_of cfg st))
                   (\<lambda>layer. Inr (Official layer))
            else Inl (NotImplementedError ''encoder type not implemented.'')) (\<lambda>encoder_layer.
     Inr (replicate (st_num_ft_layers st) encoder_layer))"

text \<open>\<^verbatim>\<open>FourierTransformer._get_freq_regressor\<close>.\<close>

definition FourierTransformer_get_freq_regressor ::
  "('a::{zero,ord}) components \<Rightarrow> 'a config \<Rightarrow> 'a module" where
  "FourierTransformer_get_freq_regressor cp cfg =
     (if truthy (cf_bulk_regression cfg) then cp_BulkRegressor cp
      else (\<lambda>x.
        bind_err
          (Linear_forward \<lparr>lin_in_features = cf_n_hidden cfg, lin_out_features = cf_n_hidden cfg,
                           lin_map = cp_freq_linear1 cp\<rparr> x) (\<lambda>h.
        Linear_forward \<lparr>lin_in_features = cf_n_hidden cfg,
                        lin_out_features = nat (cf_n_freq_targets cfg),
                        lin_map = cp_freq_linear2 cp\<rparr> (map_tensor relu h))))"

text \<open>
  \<^verbatim>\<open>_get_regressor\<close> of both operators. The first passes no \<^verbatim>\<open>num_layers\<close>, which is
  then 2, and selects the spectral regressor by the name \<open>ifft\<close>; the second passes
  \<^verbatim>\<open>num_regressor_layers\<close> and selects it by \<open>ifft2\<close>.
\<close>

definition regressor_kwargs_of :: "'a config \<Rightarrow> settings \<Rightarrow> int option \<Rightarrow> regressor_kwargs" where
  "regressor_kwargs_of cfg st num_layers =
     \<lparr>rk_in_dim = cf_n_hidden cfg,
      rk_n_hidden = cf_n_hidden cfg,
      rk_out_dim = cf_n_targets cfg,
      rk_num_layers = num_layers,
      rk_spacial_fc = st_spacial_fc st,
      rk_spacial_dim = st_spacial_dim st,
      rk_dropout = cf_decoder_dropout cfg,
      rk_activation = cf_regressor_activation cfg,
      rk_debug = cf_debug cfg\<rparr>"

definition FourierTransformer_get_regressor ::
  "('a::{zero,ord}) components \<Rightarrow> 'a config \<Rightarrow> settings \<Rightarrow> error + 'a regressor" where
  "FourierTransformer_get_regressor cp cfg st =
     (if cf_decoder_type cfg = Some ''pointwise''
      then bind_err (PointwiseRegressor_init (cp_regressor cp) (regressor_kwargs_of cfg st (Some 2)))
             (\<lambda>r. Inr (Pointwise r))
      else if cf_decoder_type cfg = Some ''ifft''
      then bind_err (cp_SpectralRegressor cp) (\<lambda>f. Inr (Spectral f))
      else Inl (NotImplementedError ''Decoder type not implemented''))"

definition FourierTransformer2D_get_regressor ::
  "('a::{zero,ord}) components \<Rightarrow> 'a config \<Rightarrow> settings \<Rightarrow> error + 'a regressor" where
  "FourierTransformer2D_get_regressor cp cfg st =
     (if cf_decoder_type cfg = Some ''pointwise''
      then bind_err
             (PointwiseRegressor_init (cp_regressor cp)
                (regressor_kwargs_of cfg st (cf_num_regressor_layers cfg)))
             (\<lambda>r. Inr (Pointwise r))
      else if cf_decoder_type cfg = Some ''ifft2''
      then bind_err (cp_SpectralRegressor cp) (\<lambda>f. Inr (Spectral f))
      else Inl (NotImplementedError ''Decoder type not implemented''))"

text \<open>
  \<^verbatim>\<open>FourierTransformer.__init__\<close>: \<^verbatim>\<open>_get_setting\<close>, then \<^verbatim>\<open>_initialize\<close>, which builds
  the graph extractor, the encoder, the frequency regressor when
  \<^verbatim>\<open>n_freq_targets > 0\<close>, and the regressor. The weights of the regressor are those after
  \<^verbatim>\<open>_initialize_layer\<close>.
\<close>

definition FourierTransformer_init ::
  "('a::{zero,ord}) components \<Rightarrow> 'a config \<Rightarrow> error + 'a FourierTransformer" where
  "FourierTransformer_init cp cfg =
     bind_err (FourierTransformer_get_setting cfg) (\<lambda>st.
     bind_err (FourierTransformer_get_graph cp cfg) (\<lambda>feat_extract.
     bind_err (FourierTransformer_get_encoder cp cfg st) (\<lambda>encoder_layers.
     let freq_regressor =
           (if cf_n_freq_targets cfg > 0 then Some (FourierTransformer_get_freq_regressor cp cfg)
            else None)
     in
     bind_err (FourierTransformer_get_regressor cp cfg st) (\<lambda>regressor.
     Inr \<lparr>ft_feat_extract = feat_extract,
          ft_spacial_residual = cf_spacial_residual cfg,
          ft_return_ortho = cf_return_ortho cfg,
          ft_encoder_layers = encoder_layers,
          ft_return_attn_weight = cf_return_attn_weight cfg,
          ft_freq_regressor = freq_regressor,
          ft_pred_len = cf_pred_len cfg,
          ft_n_freq_targets = cf_n_freq_targets cfg,
          ft_dp = st_dropout st,
          ft_regressor = regressor\<rparr>))))"

text \<open>
  \<^verbatim>\<open>FourierTransformer2D.__init__\<close>: \<^verbatim>\<open>_get_setting\<close>, then \<^verbatim>\<open>_initialize\<close>, which
  builds the graph extractor, the scaler, the encoder and the regressor.
\<close>

definition FourierTransformer2D_init ::
  "('a::{zero,ord}) components \<Rightarrow> 'a config \<Rightarrow> error + 'a FourierTransformer2D" where
  "FourierTransformer2D_init cp cfg =
     bind_err (FourierTransformer2D_get_setting cfg) (\<lambda>st.
     bind_err (FourierTransformer2D_get_graph cp cfg) (\<lambda>feat_extract.
     bind_err (FourierTransformer2D_get_scaler cp cfg st) (\<lambda>(downscaler, upscaler).
     bind_err (FourierTransformer2D_get_encoder cp cfg st) (\<lambda>encoder_layers.
     bind_err (FourierTransformer2D_get_regressor cp cfg st) (\<lambda>regressor.
     Inr \<lparr>f2_scaler = st_scaler st,
          f2_downscaler = downscaler,
          f2_n_hidden = cf_n_hidden cfg,
          f2_feat_extract = feat_extract,
          f2_dropout = st_dropout st,
          f2_encoder_layers = encoder_layers,
          f2_return_attn_weight = cf_return_attn_weight cfg,
          f2_return_ortho = cf_return_ortho cfg,
          f2_upscaler = upscaler,
          f2_regressor = regressor,
          f2_normalizer = cf_normalizer cfg,
          f2_boundary_condition = cf_boundary_condition cfg\<rparr>)))))"

section \<open>The constructor of SimpleAttention\<close>

text \<open>
  Modelled from the spec: the constructor of \<^verbatim>\<open>SimpleAttention\<close>, whose code is in
  \<^verbatim>\<open>libs/layers.py\<close> and not among the sources. The specification says of the attention
  kernel: "Head count must evenly partition hidden width (each head operates on
  hidden_width / n_head channels; if it does not divide evenly, construction must fail)",
  and lists "head count not dividing hidden width" as a construction error. \<open>fwd\<close> is the
  forward function of the attention that is built otherwise.
\<close>

definition SimpleAttention_init :: "'a attention \<Rightarrow> attention_kwargs \<Rightarrow> error + 'a attention" where
  "SimpleAttention_init fwd kw =
     (if ak_n_head kw = 0 \<or> ak_d_model kw mod ak_n_head kw \<noteq> 0 then Inl AssertionError
      else Inr fwd)"

section \<open>The attention variants as described\<close>

text \<open>
  Modelled from the spec: the attention kernels \<open>fourier\<close> and \<open>galerkin\<close>, whose code is
  in \<^verbatim>\<open>libs/layers.py\<close> and not among the sources. The model is one head on one entry
  of the batch, without positions and without dropout: query, key and value are matrices
  with a row for every position and a column for every channel, over the reals.
\<close>

type_synonym matrix = "real list list"

definition mat_mul :: "matrix \<Rightarrow> matrix \<Rightarrow> matrix" where
  "mat_mul A B = map (\<lambda>row. map (\<lambda>col. sum_list (map2 (*) row col)) (transpose B)) A"

definition mat_scale :: "real \<Rightarrow> matrix \<Rightarrow> matrix" where
  "mat_scale c A = map (map ((*) c)) A"

definition vec_mean :: "real list \<Rightarrow> real" where
  "vec_mean xs = sum_list xs / real (length xs)"

definition vec_variance :: "real list \<Rightarrow> real" where
  "vec_variance xs = vec_mean (map (\<lambda>v. (v - vec_mean xs)\<^sup>2) xs)"

text \<open>
  Modelled from the spec: "an explicit instance/layer normalization pass", where
  "normalization uses a small epsilon (1e-7 class) to avoid division blow-up". Layer
  normalization takes the statistics of every position over its channels, instance
  normalization those of every channel over the positions; \<open>eps\<close> is the epsilon.
\<close>

definition normalize_vector :: "real \<Rightarrow> real list \<Rightarrow> real list" where
  "normalize_vector eps xs = map (\<lambda>v. (v - vec_mean xs) / sqrt (vec_variance xs + eps)) xs"

datatype norm_kind = Layer | Instance

definition normalize_matrix :: "norm_kind \<Rightarrow> real \<Rightarrow> matrix \<Rightarrow> matrix" where
  "normalize_matrix kind eps X =
     (case kind of
        Layer \<Rightarrow> map (normalize_vector eps) X
      | Instance \<Rightarrow> transpose (map (normalize_vector eps) (transpose X)))"

text \<open>
  Modelled from the spec: "the aggregation order is rearranged so the kernel is computed
  as key-value inner product first", with the default "uniform weighting equivalent to
  ordinary mean normalization": the product of the keys' transpose with the values comes
  first, and the result is divided by the number of positions.
\<close>

definition linear_attention :: "matrix \<Rightarrow> matrix \<Rightarrow> matrix \<Rightarrow> matrix" where
  "linear_attention Q K V = mat_scale (1 / real (length K)) (mat_mul Q (mat_mul (transpose K) V))"

text \<open>
  Modelled from the spec: \<open>fourier\<close> is the "attention where queries/keys are normalized
  ... before the inner product".
\<close>

definition fourier_attention :: "norm_kind \<Rightarrow> real \<Rightarrow> matrix \<Rightarrow> matrix \<Rightarrow> matrix \<Rightarrow> matrix" where
  "fourier_attention kind eps Q K V =
     linear_attention (normalize_matrix kind eps Q) (normalize_matrix kind eps K) V"

text \<open>
  Modelled from the spec: \<open>galerkin\<close> is the "identical algebraic rearrangement to
  \<open>fourier\<close> but normalizes only keys/values, not queries".
\<close>

definition galerkin_attention :: "norm_kind \<Rightarrow> real \<Rightarrow> matrix \<Rightarrow> matrix \<Rightarrow> matrix \<Rightarrow> matrix" where
  "galerkin_attention kind eps Q K V =
     linear_attention Q (normalize_matrix kind eps K) (normalize_matrix kind eps V)"

text \<open>
  Modelled from the spec: the variant "selected by string tag" on an input \<open>x\<close>, after
  the projections of query, key and value. Two variants are identically initialized when
  they are given the same projection weights.
\<close>

record projections =
  proj_q :: matrix
  proj_k :: matrix
  proj_v :: matrix

definition attention_variant ::
  "string \<Rightarrow> norm_kind \<Rightarrow> real \<Rightarrow> projections \<Rightarrow> matrix \<Rightarrow> matrix option" where
  "attention_variant name kind eps w x =
     (let Q = mat_mul x (proj_q w); K = mat_mul x (proj_k w); V = mat_mul x (proj_v w) in
      if name = ''fourier'' then Some (fourier_attention kind eps Q K V)
      else if name = ''galerkin'' then Some (galerkin_attention kind eps Q K V)
      else None)"

section \<open>The graph stack as described\<close>

text \<open>
  For comparison with \<open>graph_loop\<close>: the stack of graph layers with a ReLU between every
  two consecutive layers and none after the last, as the description of the extractors
  has it.
\<close>

fun relu_between ::
  "bool option \<Rightarrow> ('a::{zero,ord}) graph_layer list \<Rightarrow> 'a tensor \<Rightarrow> 'a tensor \<Rightarrow> error + 'a tensor" where
  "relu_between activation [] out edge = Inr out"
| "relu_between activation [gc] out edge = gc out edge"
| "relu_between activation (gc # gc' # layers) out edge =
     bind_err (gc out edge) (\<lambda>out.
     relu_between activation (gc' # layers)
       (if truthy activation then map_tensor relu out else out) edge)"

section \<open>Example inputs\<close>

definition example_attention :: "int attention" where
  "example_attention q k v pos weight = Inr (v, q)"

definition example_sublayers :: "int encoder_sublayers" where
  "example_sublayers =
     \<lparr>sub_layer_norm1 = Inr, sub_layer_norm2 = Inr, sub_ff = Inr, sub_pos_emb = Inr\<rparr>"

definition example_kwargs :: encoder_kwargs where
  "example_kwargs =
     \<lparr>ek_d_model = 4, ek_pos_dim = 1, ek_n_head = 2, ek_dim_feedforward = 8,
      ek_attention_type = ''fourier'', ek_pos_emb = False, ek_layer_norm = Some True,
      ek_attn_norm = None, ek_norm_type = None, ek_batch_norm = Some False,
      ek_attn_weight = Some False, ek_xavier_init = Some (1 / 10000),
      ek_diagonal_weight = Some (1 / 100), ek_symmetric_init = Some False,
      ek_residual_type = Some ''add'', ek_activation_type = Some ''relu'',
      ek_dropout = Some 0, ek_debug = Some False\<rparr>"

text \<open>
  The layer the constructor builds from \<open>example_kwargs\<close>, up to the dropout rate and the
  residual type.
\<close>

definition example_layer :: "rat \<Rightarrow> string option \<Rightarrow> int FourierTransformerEncoderLayer" where
  "example_layer rate residual_type =
     \<lparr>fl_attn = example_attention, fl_d_model = 4, fl_n_head = 2, fl_pos_dim = 1,
      fl_add_layer_norm = Some True, fl_layer_norm1 = Some Inr, fl_layer_norm2 = Some Inr,
      fl_ff = Inr,
      fl_dropout1 = \<lparr>drop_p = rate, drop_training = True\<rparr>,
      fl_dropout2 = \<lparr>drop_p = rate, drop_training = True\<rparr>,
      fl_residual_type = residual_type, fl_add_pos_emb = False, fl_pos_emb = None,
      fl_debug = Some False, fl_attn_weight = Some False\<rparr>"

definition ones :: "nat list \<Rightarrow> int tensor" where
  "ones s = \<lparr>shape = s, elem = (\<lambda>idx. 1)\<rparr>"

definition zero_out :: "int mask" where
  "zero_out idx v = 0"

definition example_regressor_params :: "int regressor_params" where
  "example_regressor_params =
     \<lparr>pp_fc = (\<lambda>v c. v 0), pp_ff = (\<lambda>k v c. v c + int k), pp_out = (\<lambda>v c. v 0 + 1),
      pp_silu = (\<lambda>v. v)\<rparr>"

definition example_regressor_kwargs :: regressor_kwargs where
  "example_regressor_kwargs =
     \<lparr>rk_in_dim = 4, rk_n_hidden = 4, rk_out_dim = 1, rk_num_layers = Some 2,
      rk_spacial_fc = Some False, rk_spacial_dim = Some 2, rk_dropout = None,
      rk_activation = Some ''silu'', rk_debug = Some False\<rparr>"

definition example_regressor :: "int PointwiseRegressor" where
  "example_regressor =
     \<lparr>pr_spacial_fc = Some False,
      pr_fc = None,
      pr_ff = [(\<lparr>lin_in_features = 4, lin_out_features = 4,
                 lin_map = pp_ff example_regressor_params 0\<rparr>, pp_silu example_regressor_params),
               (\<lparr>lin_in_features = 4, lin_out_features = 4,
                 lin_map = pp_ff example_regressor_params 1\<rparr>, pp_silu example_regressor_params)],
      pr_dropout = \<lparr>drop_p = 1 / 10, drop_training = True\<rparr>,
      pr_out = \<lparr>lin_in_features = 4, lin_out_features = 1,
                lin_map = pp_out example_regressor_params\<rparr>,
      pr_debug = Some False\<rparr>"

definition example_draws :: "int draws" where
  "example_draws =
     \<lparr>rng_dropout = (\<lambda>k. zero_out), rng_encoder = (\<lambda>k j. zero_out),
      rng_regressor = (\<lambda>k. zero_out)\<rparr>"

text \<open>
  The operators the constructors build from the example configurations below; \<open>up\<close> is
  the resolution the example upscaler returns.
\<close>

definition example_2d :: "nat \<Rightarrow> string option \<Rightarrow> int FourierTransformer2D" where
  "example_2d up bc =
     \<lparr>f2_scaler = True,
      f2_downscaler = (\<lambda>x. Inr (ones [hd (shape x), 17, 17, 4])),
      f2_n_hidden = 4,
      f2_feat_extract = (\<lambda>x edge. Inr x),
      f2_dropout = \<lparr>drop_p = 1 / 10, drop_training = True\<rparr>,
      f2_encoder_layers =
        [Fourier (example_layer (1 / 10) (Some ''add'')),
         Fourier (example_layer (1 / 10) (Some ''add''))],
      f2_return_attn_weight = Some False,
      f2_return_ortho = None,
      f2_upscaler = (\<lambda>x. Inr (ones [hd (shape x), up, up, 4])),
      f2_regressor = Pointwise example_regressor,
      f2_normalizer = None,
      f2_boundary_condition = bc\<rparr>"

definition example_1d :: "bool option \<Rightarrow> bool option \<Rightarrow> int FourierTransformer" where
  "example_1d spacial_residual return_ortho =
     \<lparr>ft_feat_extract = (\<lambda>node edge. Inr node),
      ft_spacial_residual = spacial_residual,
      ft_return_ortho = return_ortho,
      ft_encoder_layers =
        [Fourier (example_layer (1 / 10) None), Fourier (example_layer (1 / 10) None)],
      ft_return_attn_weight = Some False,
      ft_freq_regressor = None,
      ft_pred_len = 0,
      ft_n_freq_targets = 0,
      ft_dp = \<lparr>drop_p = 1 / 10, drop_training = True\<rparr>,
      ft_regressor = Pointwise example_regressor\<rparr>"

definition example_graph_lib :: "int graph_lib" where
  "example_graph_lib =
     \<lparr>lib_EdgeEncoder = (\<lambda>out_dim edge_feats raw_laplacian. Inr),
      lib_GraphConvolution = (\<lambda>k in_features out_features x edge. Inr (map_tensor (\<lambda>v. v - 2) x)),
      lib_GraphAttention = (\<lambda>k in_features out_features x edge. Inr (map_tensor (\<lambda>v. v - 2) x))\<rparr>"

definition example_graph_kwargs :: graph_kwargs where
  "example_graph_kwargs =
     \<lparr>gk_node_feats = 1, gk_out_features = 1, gk_num_gcn_layers = 2, gk_edge_feats = 1,
      gk_activation = Some True, gk_raw_laplacian = None, gk_dropout = Some (1 / 10),
      gk_debug = None\<rparr>"

definition example_config :: "int config" where
  "example_config =
     \<lparr>cf_node_feats = 4, cf_edge_feats = 1, cf_pos_dim = 1, cf_n_targets = 1, cf_n_hidden = 4,
      cf_num_feat_layers = 0, cf_num_ft_layers = 2, cf_n_head = 2, cf_pred_len = 0,
      cf_n_freq_targets = 0, cf_dim_feedforward = None, cf_feat_extract_type = None,
      cf_graph_activation = None, cf_raw_laplacian = None, cf_attention_type = Some ''fourier'',
      cf_xavier_init = Some (1 / 10000), cf_diagonal_weight = Some (1 / 100),
      cf_symmetric_init = Some False, cf_layer_norm = Some True, cf_attn_norm = Some False,
      cf_norm_type = None, cf_batch_norm = Some False, cf_spacial_residual = Some False,
      cf_return_attn_weight = Some False, cf_return_ortho = None, cf_residual_type = None,
      cf_bulk_regression = Some False, cf_decoder_type = Some ''pointwise'',
      cf_num_regressor_layers = Some 2, cf_spacial_dim = Some 2, cf_spacial_fc = Some False,
      cf_dropout = Some (1 / 10), cf_encoder_dropout = Some (1 / 10), cf_decoder_dropout = None,
      cf_regressor_activation = Some ''silu'', cf_attn_activation = None, cf_debug = Some False,
      cf_boundary_condition = None, cf_normalizer = None, cf_upscaler_size = PyNone,
      cf_downscaler_size = PyNone\<rparr>"

definition example_components :: "int components" where
  "example_components =
     \<lparr>cp_SimpleAttention = (\<lambda>kw. Inr example_attention),
      cp_sublayers = example_sublayers,
      cp_official =
        \<lparr>op_self_attn = (\<lambda>q k v attn_mask key_padding_mask. Inr (v, q)),
         op_linear1 = (\<lambda>v c. v 0), op_linear2 = (\<lambda>v c. v 0),
         op_norm1 = Inr, op_norm2 = Inr\<rparr>,
      cp_graph = example_graph_lib,
      cp_Identity = (\<lambda>in_features out_features x edge. Inr x),
      cp_BulkRegressor = Inr,
      cp_freq_linear1 = (\<lambda>v c. v 0),
      cp_freq_linear2 = (\<lambda>v c. v 0),
      cp_regressor = example_regressor_params,
      cp_SpectralRegressor = Inr (\<lambda>x grid. Inr x),
      cp_DownScaler = Inr Inr,
      cp_UpScaler = Inr Inr\<rparr>"

text \<open>
  The configuration and the components of the 2D examples: a scaler is configured, the
  downscaler returns \<open>17 \<times> 17\<close> features and the upscaler \<open>up \<times> up\<close>.
\<close>

definition example_config_2d :: "string option \<Rightarrow> int config" where
  "example_config_2d bc =
     example_config
       \<lparr>cf_node_feats := 1, cf_boundary_condition := bc,
        cf_upscaler_size := PyNumber 2, cf_downscaler_size := PyNumber (1 / 2)\<rparr>"

definition example_components_2d :: "nat \<Rightarrow> int components" where
  "example_components_2d up =
     example_components
       \<lparr>cp_DownScaler := Inr (\<lambda>x. Inr (ones [hd (shape x), 17, 17, 4])),
        cp_UpScaler := Inr (\<lambda>x. Inr (ones [hd (shape x), up, up, 4]))\<rparr>"

text \<open>Building an operator from a configuration and evaluating it on an input.\<close>

definition run_FourierTransformer ::
  "('a::{plus,minus,zero,ord}) components \<Rightarrow> 'a config \<Rightarrow> 'a draws \<Rightarrow> 'a tensor \<Rightarrow> 'a tensor
     \<Rightarrow> 'a tensor option \<Rightarrow> 'a tensor option \<Rightarrow> 'a tensor option \<Rightarrow> error + 'a predictions" where
  "run_FourierTransformer cp cfg rng node edge pos grid weight =
     bind_err (FourierTransformer_init cp cfg) (\<lambda>m.
     FourierTransformer_forward m rng node edge pos grid weight)"

definition run_FourierTransformer2D ::
  "('a::{plus,minus,zero,ord}) components \<Rightarrow> 'a config \<Rightarrow> 'a draws \<Rightarrow> 'a tensor \<Rightarrow> 'a tensor
     \<Rightarrow> 'a tensor \<Rightarrow> 'a tensor \<Rightarrow> 'a tensor option \<Rightarrow> error + 'a predictions2D" where
  "run_FourierTransformer2D cp cfg rng node edge pos grid weight =
     bind_err (FourierTransformer2D_init cp cfg) (\<lambda>m.
     FourierTransformer2D_forward m rng node edge pos grid weight)"


definition preds_entry :: "nat list \<Rightarrow> error + 'a predictions2D \<Rightarrow> error + 'a" where
  "preds_entry idx r = map_sum id (\<lambda>out. elem (preds2 out) idx) r"

definition ortho_length :: "error + 'a predictions \<Rightarrow> error + nat" where
  "ortho_length r = map_sum id (\<lambda>out. length (preds_ortho out)) r"

definition tensor_entry :: "nat list \<Rightarrow> error + 'a tensor \<Rightarrow> error + 'a" where
  "tensor_entry idx r = map_sum id (\<lambda>t. elem t idx) r"

definition is_official :: "'a encoder_layer \<Rightarrow> bool" where
  "is_official enc = (case enc of Fourier layer \<Rightarrow> False | Official layer \<Rightarrow> True)"

definition built_layers :: "error + 'a FourierTransformer \<Rightarrow> error + bool list" where
  "built_layers r = map_sum id (\<lambda>m. map is_official (ft_encoder_layers m)) r"

definition raised :: "error + 'b \<Rightarrow> error option" where
  "raised r = (case r of Inl e \<Rightarrow> Some e | Inr v \<Rightarrow> None)"

section \<open>Properties\<close>

subsection \<open>Errors\<close>

lemma bind_err_Inl [simp]: "bind_err (Inl e) f = Inl e"
  by (simp add: bind_err_def)

lemma bind_err_Inr [simp]: "bind_err (Inr v) f = f v"
  by (simp add: bind_err_def)

lemma bind_err_Inr_iff: "bind_err m f = Inr y \<longleftrightarrow> (\<exists>v. m = Inr v \<and> f v = Inr y)"
  by (cases m) simp_all

subsection \<open>The encoder layer\<close>

text \<open>
  Claim C9. For every configured dropout value, unset included, an encoder layer of
  attention type \<open>linear\<close> or \<open>softmax\<close> is built whenever the attention itself is, and
  the rate of both of its dropouts and the rate it hands to the attention are at least
  0.1.
\<close>

theorem linear_softmax_dropout_at_least_default:
  assumes "ek_attention_type kw = ''linear'' \<or> ek_attention_type kw = ''softmax''"
    and "mk_attn (SimpleAttention_kwargs kw) = Inr a"
  shows "\<exists>layer. FourierTransformerEncoderLayer_init mk_attn sub kw = Inr layer
           \<and> 1 / 10 \<le> drop_p (fl_dropout1 layer) \<and> 1 / 10 \<le> drop_p (fl_dropout2 layer)
           \<and> 1 / 10 \<le> ak_dropout (SimpleAttention_kwargs kw)"
  using assms
  by (auto simp: FourierTransformerEncoderLayer_init_def layer_dropout_def
      Dropout_init_def SimpleAttention_kwargs_def Let_def)

theorem linear_softmax_dropout_witness:
  "\<exists>layer. FourierTransformerEncoderLayer_init (\<lambda>kw. Inr example_attention) example_sublayers
             (example_kwargs\<lparr>ek_attention_type := ''softmax''\<rparr>) = Inr layer
     \<and> 1 / 10 \<le> drop_p (fl_dropout1 layer) \<and> 1 / 10 \<le> drop_p (fl_dropout2 layer)
     \<and> 1 / 10 \<le> ak_dropout (SimpleAttention_kwargs (example_kwargs\<lparr>ek_attention_type := ''softmax''\<rparr>))"
  using linear_softmax_dropout_at_least_default
          [of "example_kwargs\<lparr>ek_attention_type := ''softmax''\<rparr>" "\<lambda>kw. Inr example_attention"
              example_attention example_sublayers]
  by (simp add: example_kwargs_def)

text \<open>
  Claim C2. With a dropout rate of zero, the residual around the attention returns
  \<open>x + att_output\<close> when \<open>residual_type\<close> is \<open>add\<close> and \<open>x - att_output\<close> when it is
  \<open>minus\<close>, for every \<open>x\<close> and every output \<open>att_output\<close> of the attention, whatever mask
  the dropout would have drawn.
\<close>

theorem attn_residual_add_minus:
  assumes "drop_p (fl_dropout1 layer) = 0"
  shows "(fl_residual_type layer = Some ''add''
            \<longrightarrow> attn_residual layer noise x att_output = tensor_add x att_output)
       \<and> (fl_residual_type layer = Some ''minus''
            \<longrightarrow> attn_residual layer noise x att_output = tensor_sub x att_output)"
  using assms by (simp add: attn_residual_def Dropout_forward_def)

theorem attn_residual_add_minus_witness:
  "attn_residual (example_layer 0 (Some ''add'')) zero_out (ones [1, 2, 4]) (ones [1, 2, 4])
     = tensor_add (ones [1, 2, 4]) (ones [1, 2, 4])
   \<and> attn_residual (example_layer 0 (Some ''minus'')) zero_out (ones [1, 2, 4]) (ones [1, 2, 4])
     = tensor_sub (ones [1, 2, 4]) (ones [1, 2, 4])"
  using attn_residual_add_minus
          [of "example_layer 0 (Some ''add'')" zero_out "ones [1, 2, 4]" "ones [1, 2, 4]"]
        attn_residual_add_minus
          [of "example_layer 0 (Some ''minus'')" zero_out "ones [1, 2, 4]" "ones [1, 2, 4]"]
  by (simp add: example_layer_def)

text \<open>The layers of the example are those the constructor builds with a dropout of zero.\<close>

lemma example_layer_init:
  "FourierTransformerEncoderLayer_init (\<lambda>kw. Inr example_attention) example_sublayers
     (example_kwargs\<lparr>ek_residual_type := r\<rparr>) = Inr (example_layer 0 r)"
  by (simp add: FourierTransformerEncoderLayer_init_def example_kwargs_def example_layer_def
      example_sublayers_def layer_dropout_def Dropout_init_def Let_def)

subsection \<open>Shapes\<close>

lemma sqrt_down_eq:
  "k \<le> m \<Longrightarrow> k * k \<le> n \<Longrightarrow> n < Suc k * Suc k \<Longrightarrow> sqrt_down n m = k"
proof (induction m)
  case 0
  then show ?case by simp
next
  case (Suc m)
  show ?case
  proof (cases "Suc m * Suc m \<le> n")
    case True
    with Suc.prems have "Suc m * Suc m < Suc k * Suc k" by linarith
    have "Suc m < Suc k"
    proof (rule ccontr)
      assume "\<not> Suc m < Suc k"
      then have "Suc k \<le> Suc m" by simp
      then have "Suc k * Suc k \<le> Suc m * Suc m" by (intro mult_le_mono)
      with \<open>Suc m * Suc m < Suc k * Suc k\<close> show False by simp
    qed
    with Suc.prems True show ?thesis by simp
  next
    case False
    with Suc.prems have "k \<noteq> Suc m" by auto
    with Suc.prems have "k \<le> m" by simp
    with Suc False show ?thesis by simp
  qed
qed

lemma int_sqrt_square: "int_sqrt (k * k) = k"
  unfolding int_sqrt_def
  by (rule sqrt_down_eq) (auto simp: le_square)

lemma int_sqrt_289: "int_sqrt 289 = 17"
  using int_sqrt_square[of 17] by simp

lemma Dropout_forward_shape [simp]: "shape (Dropout_forward d noise x) = shape x"
  by (simp add: Dropout_forward_def)

lemma map_tensor_shape [simp]: "shape (map_tensor f x) = shape x"
  by (simp add: map_tensor_def)





lemma pad_border_zero:
  assumes "pad_border x = Inr y"
  shows "3 \<le> length (shape y) \<and>
         2 \<le> shape y ! (length (shape y) - 3) \<and> 2 \<le> shape y ! (length (shape y) - 2) \<and>
         (\<forall>idx. idx ! (length (shape y) - 3) = 0
               \<or> idx ! (length (shape y) - 3) = shape y ! (length (shape y) - 3) - 1
               \<or> idx ! (length (shape y) - 2) = 0
               \<or> idx ! (length (shape y) - 2) = shape y ! (length (shape y) - 2) - 1
               \<longrightarrow> elem y idx = 0)"
proof -
  define r where "r = length (shape x)"
  define i where "i = r - 3"
  define j where "j = r - 2"
  from assms have r: "3 \<le> r"
    by (auto simp: pad_border_def Let_def r_def split: if_splits)
  from assms r have sy: "shape y = (shape x)[i := shape x ! i + 2, j := shape x ! j + 2]"
    by (auto simp: pad_border_def Let_def r_def i_def j_def split: if_splits)
  from assms r have ey: "elem y = (\<lambda>idx. if idx ! i = 0 \<or> idx ! i = Suc (shape x ! i)
                                  \<or> idx ! j = 0 \<or> idx ! j = Suc (shape x ! j)
                               then 0
                               else elem x (idx[i := idx ! i - 1, j := idx ! j - 1]))"
    by (auto simp: pad_border_def Let_def r_def i_def j_def split: if_splits)
  have len: "length (shape y) = r" by (simp add: sy r_def)
  have ne: "i \<noteq> j" and lt: "i < r" "j < r" using r by (auto simp: i_def j_def)
  have s1: "shape y ! i = shape x ! i + 2"
    using ne lt by (simp add: sy r_def)
  have s2: "shape y ! j = shape x ! j + 2"
    using lt by (simp add: sy r_def)
  show ?thesis
    unfolding len i_def[symmetric] j_def[symmetric] s1 s2 using r by (simp add: ey)
qed

subsection \<open>The pointwise regressor\<close>

lemma PointwiseRegressor_init_layers:
  assumes "PointwiseRegressor_init par kw = Inr reg"
  shows "list_all (\<lambda>(l, a). lin_in_features l = rk_n_hidden kw \<and> lin_out_features l = rk_n_hidden kw)
           (pr_ff reg)"
    and "lin_in_features (pr_out reg) = rk_n_hidden kw"
    and "lin_out_features (pr_out reg) = rk_out_dim kw"
    and "pr_spacial_fc reg = rk_spacial_fc kw"
    and "truthy (rk_spacial_fc kw) \<Longrightarrow>
           \<exists>sd fc. rk_spacial_dim kw = Some sd \<and> pr_fc reg = Some fc
             \<and> lin_in_features fc = rk_in_dim kw + sd \<and> lin_out_features fc = rk_n_hidden kw"
  using assms
  by (auto simp: PointwiseRegressor_init_def Let_def bind_err_Inr_iff list_all_iff
      split: option.splits if_splits)



lemma example_regressor_init:
  "PointwiseRegressor_init example_regressor_params example_regressor_kwargs = Inr example_regressor"
  by (simp add: PointwiseRegressor_init_def example_regressor_kwargs_def example_regressor_def
      Dropout_init_def Let_def upt_rec)

text \<open>
  Claim C7. A pointwise regressor built with \<^verbatim>\<open>spacial_fc\<close> false (or unset) returns the
  same result, or raises the same error, for every two values of \<open>grid\<close>, a missing
  grid included, on the same input and the same dropout masks.
\<close>

theorem pointwise_regressor_ignores_grid:
  assumes "\<not> truthy (rk_spacial_fc kw)"
    and "PointwiseRegressor_init par kw = Inr reg"
  shows "PointwiseRegressor_forward reg noise x grid1 = PointwiseRegressor_forward reg noise x grid2"
  using assms PointwiseRegressor_init_layers(4)[OF assms(2)]
  by (simp add: PointwiseRegressor_forward_def)

theorem pointwise_regressor_ignores_grid_witness:
  "\<not> truthy (rk_spacial_fc example_regressor_kwargs)
   \<and> PointwiseRegressor_forward example_regressor (\<lambda>k. zero_out) (ones [2, 8, 4]) (Some (ones [2, 8, 1]))
     = PointwiseRegressor_forward example_regressor (\<lambda>k. zero_out) (ones [2, 8, 4]) None"
  using pointwise_regressor_ignores_grid
          [OF _ example_regressor_init, of "\<lambda>k. zero_out" "ones [2, 8, 4]" "Some (ones [2, 8, 1])" None]
  by (simp add: example_regressor_kwargs_def)

subsection \<open>The example operators\<close>

lemmas example_init_defs =
  FourierTransformer_init_def FourierTransformer2D_init_def
  FourierTransformer_get_setting_def FourierTransformer2D_get_setting_def
  FourierTransformer_get_graph_def FourierTransformer2D_get_graph_def
  FourierTransformer2D_get_scaler_def
  FourierTransformer_get_encoder_def FourierTransformer2D_get_encoder_def
  FourierTransformer_get_regressor_def FourierTransformer2D_get_regressor_def
  recognized_def official_kwargs_of_def encoder_kwargs_of_def encoder_kwargs2D_of_def
  regressor_kwargs_of_def
  TransformerEncoderLayer_init_def MultiheadAttention_init_def
  FourierTransformerEncoderLayer_init_def SimpleAttention_kwargs_def layer_dropout_def
  PointwiseRegressor_init_def Dropout_init_def Let_def
  example_config_def example_components_def

lemma replicate_2: "replicate 2 v = [v, v]"
  by (simp add: numeral_2_eq_2)

text \<open>
  The example operators are those the constructors build from the example configurations,
  so that running a configuration is the forward pass of the example operator.
\<close>

lemma example_2d_init:
  "FourierTransformer2D_init (example_components_2d up) (example_config_2d bc) = Inr (example_2d up bc)"
  by (simp add: example_init_defs example_config_2d_def example_components_2d_def example_2d_def
      example_layer_def example_sublayers_def example_regressor_def replicate_2 upt_rec)

lemma example_1d_init:
  "FourierTransformer_init example_components
     (example_config\<lparr>cf_spacial_residual := sr, cf_return_ortho := ro\<rparr>) = Inr (example_1d sr ro)"
  by (simp add: example_init_defs example_1d_def
      example_layer_def example_sublayers_def example_regressor_def replicate_2 upt_rec)

lemma example_2d_run:
  "run_FourierTransformer2D (example_components_2d up) (example_config_2d bc) rng node edge pos grid weight
     = FourierTransformer2D_forward (example_2d up bc) rng node edge pos grid weight"
  by (simp add: run_FourierTransformer2D_def example_2d_init)

lemma example_1d_run:
  "run_FourierTransformer example_components
     (example_config\<lparr>cf_spacial_residual := sr, cf_return_ortho := ro\<rparr>) rng node edge pos grid weight
     = FourierTransformer_forward (example_1d sr ro) rng node edge pos grid weight"
  by (simp add: run_FourierTransformer_def example_1d_init)

lemmas example_defs =
  forward2D_features_def example_2d_def ones_def size_at_def int_sqrt_289
  view_def view_shape_def Let_def example_draws_def Dropout_forward_def
  encoder_forward_def FourierTransformerEncoderLayer_forward_def example_layer_def
  example_attention_def attn_residual_def tensor_add_def pointwise2_def broadcast_shapes_def
  keep_tensor_def optional_module_def


lemmas example_predict_defs =
  FourierTransformer2D_forward_def example_defs
  forward2D_predict_def crop_to_grid_def crop_border_def regressor_forward_def
  PointwiseRegressor_forward_def example_regressor_def Linear_forward_def map_tensor_def
  pad_border_def

lemma example_forward_ex:
  "\<exists>out. FourierTransformer2D_forward (example_2d 33 None) example_draws
       (ones [2, 33, 33, 1]) (ones [2, 289, 289, 1]) (ones [2, 289, 2]) (ones [2, 31, 31, 2]) None
       = Inr out \<and> shape (preds2 out) = [2, 33, 33, 1]"
  by (simp add: example_predict_defs)

subsection \<open>FourierTransformer2D.forward\<close>




text \<open>
  Claim C10. When \<^verbatim>\<open>boundary_condition\<close> is \<open>dirichlet\<close> or unset, as it is by default,
  every prediction the 2D forward pass returns has at least two entries along each of
  the two dimensions before the last (the two spatial dimensions of a prediction
  \<open>(N, n, n, n_targets)\<close>) and is zero wherever the index along one of them is the first
  or the last.
\<close>

theorem dirichlet_or_unset_zero_border:
  assumes bc: "f2_boundary_condition m = Some ''dirichlet'' \<or> f2_boundary_condition m = None"
    and fwd: "FourierTransformer2D_forward m rng node edge pos grid weight = Inr out"
  shows "3 \<le> length (shape (preds2 out)) \<and>
         2 \<le> shape (preds2 out) ! (length (shape (preds2 out)) - 3) \<and>
         2 \<le> shape (preds2 out) ! (length (shape (preds2 out)) - 2) \<and>
         (\<forall>idx. idx ! (length (shape (preds2 out)) - 3) = 0
               \<or> idx ! (length (shape (preds2 out)) - 3)
                   = shape (preds2 out) ! (length (shape (preds2 out)) - 3) - 1
               \<or> idx ! (length (shape (preds2 out)) - 2) = 0
               \<or> idx ! (length (shape (preds2 out)) - 2)
                   = shape (preds2 out) ! (length (shape (preds2 out)) - 2) - 1
               \<longrightarrow> elem (preds2 out) idx = 0)"
proof -
  from fwd obtain x xo aw y where "forward2D_predict m rng x grid = Inr y" and out: "preds2 out = y"
    by (auto simp: FourierTransformer2D_forward_def bind_err_Inr_iff)
  then obtain u where "pad_border u = Inr y"
    using bc by (auto simp: forward2D_predict_def bind_err_Inr_iff)
  from pad_border_zero[OF this] show ?thesis unfolding out .
qed

theorem dirichlet_or_unset_zero_border_witness:
  "preds_entry [0, 0, 5, 0] (run_FourierTransformer2D (example_components_2d 33) (example_config_2d None)
     example_draws
     (ones [2, 33, 33, 1]) (ones [2, 289, 289, 1]) (ones [2, 289, 2]) (ones [2, 31, 31, 2]) None)
   = Inr 0
   \<and> preds_entry [1, 7, 32, 0] (run_FourierTransformer2D (example_components_2d 33) (example_config_2d None)
     example_draws
     (ones [2, 33, 33, 1]) (ones [2, 289, 289, 1]) (ones [2, 289, 2]) (ones [2, 31, 31, 2]) None)
   = Inr 0"
proof -
  obtain out where fwd: "FourierTransformer2D_forward (example_2d 33 None) example_draws
       (ones [2, 33, 33, 1]) (ones [2, 289, 289, 1]) (ones [2, 289, 2]) (ones [2, 31, 31, 2]) None
       = Inr out" and sh: "shape (preds2 out) = [2, 33, 33, 1]"
    using example_forward_ex by blast
  have bc: "f2_boundary_condition (example_2d 33 None) = Some ''dirichlet''
      \<or> f2_boundary_condition (example_2d 33 None) = None"
    by (simp add: example_2d_def)
  note border = dirichlet_or_unset_zero_border
    [OF bc fwd, THEN conjunct2, THEN conjunct2, THEN conjunct2, THEN spec]
  have "elem (preds2 out) [0, 0, 5, 0] = 0" "elem (preds2 out) [1, 7, 32, 0] = 0"
    using border[of "[0, 0, 5, 0]"] border[of "[1, 7, 32, 0]"] by (simp_all add: sh)
  then show ?thesis
    unfolding example_2d_run preds_entry_def fwd by simp
qed

text \<open>Inside the border the example's prediction is not zero.\<close>

lemma example_forward_entries:
  "preds_entry [0, 1, 1, 0] (run_FourierTransformer2D (example_components_2d 33) (example_config_2d None)
     example_draws
     (ones [2, 33, 33, 1]) (ones [2, 289, 289, 1]) (ones [2, 289, 2]) (ones [2, 31, 31, 2]) None)
   = Inr 1"
  unfolding example_2d_run
  by (simp add: preds_entry_def example_predict_defs example_regressor_params_def zero_out_def)

subsection \<open>FourierTransformer.forward\<close>

lemma encoder_loop_ortho:
  assumes "encoder_loop raw ro noise k layers pos w (x, xo, aw) = Inr (x', xo', aw')"
  shows "take (length xo) xo' = xo
       \<and> length xo' = length xo + (if truthy ro then length layers else 0)"
  using assms
proof (induction layers arbitrary: k x xo aw)
  case Nil
  then show ?case by simp
next
  case (Cons enc layers)
  from Cons.prems obtain v where
    v: "(case v of (x1, aw1) \<Rightarrow> encoder_loop raw ro noise (Suc k) layers pos w
            (x1, if truthy ro then xo @ [x1] else xo, aw1)) = Inr (x', xo', aw')"
    unfolding encoder_loop.simps bind_err_Inr_iff by blast
  obtain x1 aw1 where "v = (x1, aw1)" by (cases v)
  with v have step: "encoder_loop raw ro noise (Suc k) layers pos w
            (x1, if truthy ro then xo @ [x1] else xo, aw1) = Inr (x', xo', aw')"
    by simp
  from Cons.IH[OF step] show ?case
    by (cases "truthy ro") (auto simp: take_Suc_conv_app_nth dest: arg_cong[where f = "take (length xo)"])
qed

lemma forward_preds_ortho:
  assumes "FourierTransformer_forward m rng node edge pos grid weight = Inr out"
  shows "\<exists>res. ft_feat_extract m node edge = Inr res
           \<and> take (if truthy (ft_spacial_residual m) \<or> truthy (ft_return_ortho m) then 1 else 0)
                (preds_ortho out)
               = (if truthy (ft_spacial_residual m) \<or> truthy (ft_return_ortho m) then [res] else [])
           \<and> length (preds_ortho out)
               = (if truthy (ft_spacial_residual m) \<or> truthy (ft_return_ortho m) then 1 else 0)
                 + (if truthy (ft_return_ortho m) then length (ft_encoder_layers m) else 0)"
proof -
  from assms obtain res x' xo' aw' where
    res: "ft_feat_extract m node edge = Inr res"
    and loop: "encoder_loop (ft_return_attn_weight m) (ft_return_ortho m) (rng_encoder rng) 0
          (ft_encoder_layers m) pos weight
          (res, if truthy (ft_spacial_residual m) \<or> truthy (ft_return_ortho m) then [res] else [], [])
        = Inr (x', xo', aw')"
    and out: "preds_ortho out = xo'"
    unfolding FourierTransformer_forward_def Let_def
    by (auto simp: bind_err_Inr_iff)
  from encoder_loop_ortho[OF loop] res out show ?thesis
    by (auto split: if_splits)
qed

text \<open>
  Claim C6 says that \<open>preds_ortho\<close> is empty unless \<^verbatim>\<open>return_ortho\<close> was requested. The
  code appends the extracted features under \<^verbatim>\<open>spacial_residual or return_ortho\<close>, so
  what holds of every forward pass that returns is: \<open>preds_ortho\<close> is empty exactly when
  neither \<^verbatim>\<open>spacial_residual\<close> nor \<^verbatim>\<open>return_ortho\<close> holds.
\<close>

theorem preds_ortho_empty_iff:
  assumes "FourierTransformer_forward m rng node edge pos grid weight = Inr out"
  shows "preds_ortho out = [] \<longleftrightarrow> \<not> truthy (ft_spacial_residual m) \<and> \<not> truthy (ft_return_ortho m)"
  using forward_preds_ortho[OF assms] by (auto split: if_splits)

text \<open>
  The failing input of claim C6: the operator built with \<^verbatim>\<open>spacial_residual=True\<close> and
  \<^verbatim>\<open>return_ortho=False\<close> returns one entry in \<open>preds_ortho\<close>.
\<close>

lemma example_1d_forward:
  "ortho_length (FourierTransformer_forward (example_1d (Some True) (Some False)) example_draws
     (ones [2, 8, 4]) (ones [2, 8, 8, 1]) (Some (ones [2, 8, 1])) None None) = Inr 1"
  by (simp add: ortho_length_def FourierTransformer_forward_def example_1d_def example_defs
      regressor_forward_def
      PointwiseRegressor_forward_def example_regressor_def Linear_forward_def map_tensor_def)

theorem preds_ortho_with_spacial_residual:
  "(case run_FourierTransformer example_components
          (example_config\<lparr>cf_spacial_residual := Some True, cf_return_ortho := Some False\<rparr>)
          example_draws (ones [2, 8, 4]) (ones [2, 8, 8, 1]) (Some (ones [2, 8, 1])) None None of
      Inl e \<Rightarrow> False
    | Inr out \<Rightarrow> preds_ortho out \<noteq> [])"
proof -
  obtain out where fwd: "FourierTransformer_forward (example_1d (Some True) (Some False)) example_draws
         (ones [2, 8, 4]) (ones [2, 8, 8, 1]) (Some (ones [2, 8, 1])) None None = Inr out"
    using example_1d_forward
    by (cases "FourierTransformer_forward (example_1d (Some True) (Some False)) example_draws
         (ones [2, 8, 4]) (ones [2, 8, 8, 1]) (Some (ones [2, 8, 1])) None None")
       (simp_all add: ortho_length_def)
  have "preds_ortho out \<noteq> []"
    using preds_ortho_empty_iff[OF fwd] by (simp add: example_1d_def)
  then show ?thesis
    unfolding example_1d_run fwd by simp
qed

subsection \<open>The graph feature extractors\<close>

text \<open>
  Claim C8 says that with the activation enabled a ReLU stands between every two
  consecutive graph layers. The failing input: two layers that each subtract 2, on the
  input 1. Both extractors return \<open>-3\<close>: no ReLU is applied between \<^verbatim>\<open>layer0\<close> and the
  layer after it. With a ReLU between the two layers the result is \<open>-2\<close>.
\<close>

theorem no_relu_after_first_graph_layer:
  "tensor_entry [0, 0, 0]
     (bind_err (GCN_init example_graph_lib example_graph_kwargs)
        (\<lambda>gcn. GCN_forward gcn (ones [1, 1, 1]) (ones [1, 1, 1, 1]))) = Inr (- 3)
   \<and> tensor_entry [0, 0, 0]
     (GAT_forward (GAT_init example_graph_lib example_graph_kwargs) (ones [1, 1, 1]) (ones [1, 1, 1, 1]))
       = Inr (- 3)
   \<and> tensor_entry [0, 0, 0]
     (relu_between (Some True)
        (map (\<lambda>k. lib_GraphAttention example_graph_lib k 1 1) [0..<2]) (ones [1, 1, 1]) (ones [1, 1, 1]))
       = Inr (- 2)"
  by (simp add: tensor_entry_def GCN_init_def GAT_init_def GCN_forward_def GAT_forward_def
      example_graph_lib_def example_graph_kwargs_def Dropout_init_def permute_def ones_def
      size_at_def last_layer_def first_channel_def map_tensor_def relu_def upt_rec)

subsection \<open>Construction\<close>

lemma bind_err_isl: "(\<And>v. isl (f v)) \<Longrightarrow> isl (bind_err m f)"
  by (cases m) simp_all

lemma isl_bind_err: "isl m \<Longrightarrow> isl (bind_err m f)"
  by (cases m) simp_all

lemma layer_init_heads:
  assumes "ek_d_model kw mod ek_n_head kw \<noteq> 0"
  shows "FourierTransformerEncoderLayer_init (SimpleAttention_init fwd) sub kw = Inl AssertionError"
  using assms
  by (simp add: FourierTransformerEncoderLayer_init_def SimpleAttention_init_def
      SimpleAttention_kwargs_def Let_def)

lemma official_init_heads:
  assumes "ok_d_model kw mod ok_nhead kw \<noteq> 0"
  shows "isl (TransformerEncoderLayer_init par kw)"
proof -
  have "ok_nhead kw \<noteq> 0 \<Longrightarrow> ok_d_model kw div ok_nhead kw * ok_nhead kw \<noteq> ok_d_model kw"
    using assms by (metis mod_mult_self2_is_0)
  then show ?thesis
    by (auto simp: TransformerEncoderLayer_init_def MultiheadAttention_init_def)
qed

lemma get_encoder_heads:
  assumes "cf_n_hidden cfg mod cf_n_head cfg \<noteq> 0"
    and "cp_SimpleAttention cp = SimpleAttention_init fwd"
  shows "isl (FourierTransformer_get_encoder cp cfg st)"
    and "isl (FourierTransformer2D_get_encoder cp cfg st)"
  using assms layer_init_heads[of "encoder_kwargs_of cfg st t" fwd "cp_sublayers cp" for t]
    layer_init_heads[of "encoder_kwargs2D_of cfg st t" fwd "cp_sublayers cp" for t]
    official_init_heads[of "official_kwargs_of cfg st" "cp_official cp"]
  by (auto simp: FourierTransformer_get_encoder_def FourierTransformer2D_get_encoder_def
      encoder_kwargs_of_def encoder_kwargs2D_of_def official_kwargs_of_def
      intro!: isl_bind_err split: option.splits)

text \<open>
  Claim C4. With the constructor of the attention as the specification describes it, a
  head count that does not divide the hidden width makes the construction of the encoder
  layer fail, and with it the construction of either operator, whatever the attention
  type: no operator is built whose forward pass could run. (For an attention type that
  selects torch's layer the failure is that of torch's multi-head attention.)
\<close>

theorem heads_must_divide_width:
  assumes "cf_n_hidden cfg mod cf_n_head cfg \<noteq> 0"
    and "cp_SimpleAttention cp = SimpleAttention_init fwd"
  shows "FourierTransformerEncoderLayer_init (cp_SimpleAttention cp) (cp_sublayers cp)
           (encoder_kwargs_of cfg st attention_type) = Inl AssertionError
       \<and> isl (FourierTransformer_init cp cfg) \<and> isl (FourierTransformer2D_init cp cfg)"
proof (intro conjI)
  show "FourierTransformerEncoderLayer_init (cp_SimpleAttention cp) (cp_sublayers cp)
           (encoder_kwargs_of cfg st attention_type) = Inl AssertionError"
    unfolding assms(2) using assms(1)
    by (intro layer_init_heads) (simp add: encoder_kwargs_of_def)
  show "isl (FourierTransformer_init cp cfg)"
    unfolding FourierTransformer_init_def
    apply (rule bind_err_isl)
    apply (rule bind_err_isl)
    apply (rule isl_bind_err)
    apply (rule get_encoder_heads(1)[OF assms])
    done
  show "isl (FourierTransformer2D_init cp cfg)"
    unfolding FourierTransformer2D_init_def
    apply (rule bind_err_isl)
    apply (rule bind_err_isl)
    apply (rule bind_err_isl)
    apply (simp only: split_def)
    apply (rule isl_bind_err)
    apply (rule get_encoder_heads(2)[OF assms])
    done
qed

theorem heads_must_divide_width_witness:
  "raised (FourierTransformer_init
            (example_components\<lparr>cp_SimpleAttention := SimpleAttention_init example_attention\<rparr>)
            (example_config\<lparr>cf_pos_dim := 1, cf_n_head := 3, cf_n_hidden := 10\<rparr>))
     = Some AssertionError
   \<and> isl (FourierTransformer2D_init
            (example_components\<lparr>cp_SimpleAttention := SimpleAttention_init example_attention\<rparr>)
            (example_config\<lparr>cf_pos_dim := 1, cf_n_head := 3, cf_n_hidden := 10\<rparr>))"
proof -
  have "cf_n_hidden (example_config\<lparr>cf_pos_dim := 1, cf_n_head := 3, cf_n_hidden := 10\<rparr>)
      mod cf_n_head (example_config\<lparr>cf_pos_dim := 1, cf_n_head := 3, cf_n_hidden := 10\<rparr>) \<noteq> 0"
    by simp
  from heads_must_divide_width[OF this, of "example_components\<lparr>cp_SimpleAttention := SimpleAttention_init example_attention\<rparr>"
      example_attention]
  have "isl (FourierTransformer2D_init
            (example_components\<lparr>cp_SimpleAttention := SimpleAttention_init example_attention\<rparr>)
            (example_config\<lparr>cf_pos_dim := 1, cf_n_head := 3, cf_n_hidden := 10\<rparr>))"
    by simp
  moreover have "raised (FourierTransformer_init
            (example_components\<lparr>cp_SimpleAttention := SimpleAttention_init example_attention\<rparr>)
            (example_config\<lparr>cf_pos_dim := 1, cf_n_head := 3, cf_n_hidden := 10\<rparr>))
     = Some AssertionError"
    by (simp add: raised_def example_init_defs SimpleAttention_init_def)
  ultimately show ?thesis by simp
qed

text \<open>With a head count that divides the width the same configuration builds.\<close>

lemma good_config_builds:
  "built_layers (FourierTransformer_init
      (example_components\<lparr>cp_SimpleAttention := SimpleAttention_init example_attention\<rparr>)
      example_config) = Inr [False, False]"
  by (simp add: built_layers_def example_init_defs SimpleAttention_init_def is_official_def replicate_2)

text \<open>
  Claim C1 says that an attention type that is not recognized makes the construction of
  both operators fail with a "not implemented" error. For a name that is in neither list
  and is not \<open>official\<close>, \<^verbatim>\<open>FourierTransformer2D._get_encoder\<close> raises
  \<^verbatim>\<open>NotImplementedError\<close>, and the construction of the 2D operator fails;
  \<^verbatim>\<open>FourierTransformer._get_encoder\<close> raises nothing of its own: it builds torch's
  \<^verbatim>\<open>TransformerEncoderLayer\<close>.
\<close>

theorem unrecognized_attention_type:
  assumes "cf_attention_type cfg = Some t"
    and "t \<notin> set [''fourier'', ''integral'', ''local'', ''global'',
                    ''cosine'', ''galerkin'', ''linear'', ''softmax'', ''official'']"
    and "FourierTransformer_get_setting cfg = Inr st" "FourierTransformer2D_get_setting cfg = Inr st2"
  shows "FourierTransformer2D_get_encoder cp cfg st2
           = Inl (NotImplementedError ''encoder type not implemented.'')
       \<and> isl (FourierTransformer2D_init cp cfg)
       \<and> FourierTransformer_get_encoder cp cfg st
           = bind_err (TransformerEncoderLayer_init (cp_official cp) (official_kwargs_of cfg st))
               (\<lambda>layer. Inr (replicate (st_num_ft_layers st) (Official layer)))"
proof (intro conjI)
  have types: "st_attention_types st2 = [''fourier'', ''integral'', ''local'', ''global'',
             ''cosine'', ''galerkin'', ''linear'', ''softmax'']"
    "st_attention_types st = [''fourier'', ''integral'', ''cosine'', ''galerkin'', ''linear'', ''softmax'']"
    using assms(3,4)
    by (auto simp: FourierTransformer_get_setting_def FourierTransformer2D_get_setting_def
        bind_err_Inr_iff)
  show enc: "FourierTransformer2D_get_encoder cp cfg st2
           = Inl (NotImplementedError ''encoder type not implemented.'')"
    using assms(1,2) by (simp add: FourierTransformer2D_get_encoder_def recognized_def types)
  have "\<And>s. FourierTransformer2D_get_setting cfg = Inr s \<Longrightarrow> s = st2"
    using assms(4) by simp
  show "isl (FourierTransformer2D_init cp cfg)"
    unfolding FourierTransformer2D_init_def assms(4)
    apply simp
    apply (rule bind_err_isl)
    apply (rule bind_err_isl)
    apply (simp add: split_def enc)
    done
  show "FourierTransformer_get_encoder cp cfg st
           = bind_err (TransformerEncoderLayer_init (cp_official cp) (official_kwargs_of cfg st))
               (\<lambda>layer. Inr (replicate (st_num_ft_layers st) (Official layer)))"
    using assms(1,2)
    by (cases "TransformerEncoderLayer_init (cp_official cp) (official_kwargs_of cfg st)")
       (simp_all add: FourierTransformer_get_encoder_def recognized_def types)
qed

text \<open>
  The failing input of claim C1: with \<^verbatim>\<open>attention_type='bogus'\<close> and an encoder dropout
  of 0.1, the 1D operator is built, with two of torch's layers. When the encoder dropout
  is unset the construction fails, with the \<^verbatim>\<open>TypeError\<close> of \<^verbatim>\<open>nn.Dropout(None)\<close>.
\<close>

lemma bogus_builds:
  "built_layers (FourierTransformer_init example_components
      (example_config\<lparr>cf_attention_type := Some ''bogus''\<rparr>)) = Inr [True, True]"
  by (simp add: built_layers_def example_init_defs is_official_def replicate_2)

lemma bogus_2d:
  "raised (FourierTransformer2D_init example_components
      (example_config\<lparr>cf_attention_type := Some ''bogus''\<rparr>))
    = Some (NotImplementedError ''encoder type not implemented.'')"
  by (simp add: raised_def example_init_defs)

lemma bogus_unset_dropout:
  "raised (FourierTransformer_init example_components
      (example_config\<lparr>cf_attention_type := Some ''bogus'', cf_encoder_dropout := None\<rparr>))
    = Some TypeError"
  by (simp add: raised_def example_init_defs)

theorem unrecognized_attention_type_witness:
  "isl (FourierTransformer2D_init example_components
          (example_config\<lparr>cf_attention_type := Some ''bogus''\<rparr>))
   \<and> raised (FourierTransformer2D_init example_components
          (example_config\<lparr>cf_attention_type := Some ''bogus''\<rparr>))
       = Some (NotImplementedError ''encoder type not implemented.'')
   \<and> built_layers (FourierTransformer_init example_components
          (example_config\<lparr>cf_attention_type := Some ''bogus''\<rparr>)) = Inr [True, True]"
proof -
  obtain st st2 where
    "FourierTransformer_get_setting (example_config\<lparr>cf_attention_type := Some ''bogus''\<rparr>) = Inr st"
    "FourierTransformer2D_get_setting (example_config\<lparr>cf_attention_type := Some ''bogus''\<rparr>) = Inr st2"
    by (simp add: FourierTransformer_get_setting_def FourierTransformer2D_get_setting_def
        Dropout_init_def example_config_def)
  from unrecognized_attention_type[OF _ _ this, of "''bogus''" example_components]
  have "isl (FourierTransformer2D_init example_components
          (example_config\<lparr>cf_attention_type := Some ''bogus''\<rparr>))"
    by simp
  with bogus_2d bogus_builds show ?thesis by simp
qed

subsection \<open>The attention variants\<close>

lemma normalize_vector_1_0:
  "normalize_vector eps [1, 0] = [1 / (2 * sqrt (1 / 4 + eps)), - 1 / (2 * sqrt (1 / 4 + eps))]"
  by (simp add: normalize_vector_def vec_mean_def vec_variance_def power2_eq_square field_simps)

lemma normalize_vector_2_0:
  "normalize_vector eps [2, 0] = [1 / sqrt (1 + eps), - 1 / sqrt (1 + eps)]"
  by (simp add: normalize_vector_def vec_mean_def vec_variance_def power2_eq_square)

lemmas attention_defs =
  attention_variant_def fourier_attention_def galerkin_attention_def normalize_matrix_def
  normalize_vector_1_0 normalize_vector_2_0 linear_attention_def mat_mul_def mat_scale_def Let_def

lemma layer_fourier:
  "attention_variant ''fourier'' Layer eps
     \<lparr>proj_q = [[2, 0], [0, 2]], proj_k = [[1, 0], [0, 1]], proj_v = [[1, 0], [0, 1]]\<rparr> [[1, 0]]
   = Some [[2 * (1 / sqrt (1 + eps)) * (1 / (2 * sqrt (1 / 4 + eps))), 0]]"
  by (simp add: attention_defs)

lemma layer_galerkin:
  "attention_variant ''galerkin'' Layer eps
     \<lparr>proj_q = [[2, 0], [0, 2]], proj_k = [[1, 0], [0, 1]], proj_v = [[1, 0], [0, 1]]\<rparr> [[1, 0]]
   = Some [[2 * (1 / (2 * sqrt (1 / 4 + eps)))\<^sup>2, - (2 * (1 / (2 * sqrt (1 / 4 + eps)))\<^sup>2)]]"
  by (simp add: attention_defs power2_eq_square)

lemma instance_fourier:
  "attention_variant ''fourier'' Instance eps
     \<lparr>proj_q = [[2]], proj_k = [[1]], proj_v = [[1]]\<rparr> [[1], [0]]
   = Some [[(1 / sqrt (1 + eps)) * (1 / (2 * sqrt (1 / 4 + eps))) / 2],
           [- ((1 / sqrt (1 + eps)) * (1 / (2 * sqrt (1 / 4 + eps))) / 2)]]"
  by (simp add: attention_defs)

lemma instance_galerkin:
  "attention_variant ''galerkin'' Instance eps
     \<lparr>proj_q = [[2]], proj_k = [[1]], proj_v = [[1]]\<rparr> [[1], [0]]
   = Some [[2 * (1 / (2 * sqrt (1 / 4 + eps)))\<^sup>2], [0]]"
  by (simp add: attention_defs power2_eq_square)

lemma sqrt_terms_pos:
  assumes "0 \<le> eps"
  shows "0 < (1 / (2 * sqrt (1 / 4 + eps)))\<^sup>2"
    and "0 < (1 / sqrt (1 + eps)) * (1 / (2 * sqrt (1 / 4 + eps)))"
  using assms by (simp_all add: add_pos_nonneg)

text \<open>
  Claim C3. The variants \<open>fourier\<close> and \<open>galerkin\<close>, as described and given the same
  projection weights, are different operators: for layer normalization and for instance
  normalization, with any epsilon that is not negative, there is an input on which their
  outputs differ. The query projection doubles the input, so the statistics of the
  queries (mean 1, variance 1) differ from those of the keys and values (mean 1/2,
  variance 1/4).
\<close>

theorem galerkin_fourier_distinct:
  assumes "0 \<le> eps"
  shows "attention_variant ''fourier'' Layer eps
           \<lparr>proj_q = [[2, 0], [0, 2]], proj_k = [[1, 0], [0, 1]], proj_v = [[1, 0], [0, 1]]\<rparr> [[1, 0]]
         \<noteq> attention_variant ''galerkin'' Layer eps
           \<lparr>proj_q = [[2, 0], [0, 2]], proj_k = [[1, 0], [0, 1]], proj_v = [[1, 0], [0, 1]]\<rparr> [[1, 0]]
       \<and> attention_variant ''fourier'' Instance eps
           \<lparr>proj_q = [[2]], proj_k = [[1]], proj_v = [[1]]\<rparr> [[1], [0]]
         \<noteq> attention_variant ''galerkin'' Instance eps
           \<lparr>proj_q = [[2]], proj_k = [[1]], proj_v = [[1]]\<rparr> [[1], [0]]"
  using sqrt_terms_pos[OF assms]
  unfolding layer_fourier layer_galerkin instance_fourier instance_galerkin
  by auto

theorem galerkin_fourier_distinct_witness:
  "attention_variant ''fourier'' Layer (1 / 10000000)
           \<lparr>proj_q = [[2, 0], [0, 2]], proj_k = [[1, 0], [0, 1]], proj_v = [[1, 0], [0, 1]]\<rparr> [[1, 0]]
         \<noteq> attention_variant ''galerkin'' Layer (1 / 10000000)
           \<lparr>proj_q = [[2, 0], [0, 2]], proj_k = [[1, 0], [0, 1]], proj_v = [[1, 0], [0, 1]]\<rparr> [[1, 0]]"
  using galerkin_fourier_distinct[of "1 / 10000000"] by simp

end
